theory Spec2Isabelle
  imports
    Complex_Main
    "HOL-Library.AList"
    "HOL-Library.Char_ord"
    "HOL-Library.List_Lexorder"
begin

section \<open>Text\<close>

text \<open>
  Python strings are modelled as \<open>string\<close> (lists of 8-bit characters). The character
  classes of \<open>str.strip\<close>, \<open>str.split\<close>, \<open>str.isdigit\<close> and \<open>str.upper\<close> are the
  ASCII ones; what Python does with characters beyond ASCII (other Unicode spaces and
  digits, case mappings that change the length) is outside this model.
\<close>

definition LF :: char where
  "LF = CHR 0x0A"

definition CR :: char where
  "CR = CHR 0x0D"

definition isspace :: "char \<Rightarrow> bool" where
  "isspace c =
     (c \<in> set [CHR 0x09, CHR 0x0A, CHR 0x0B, CHR 0x0C, CHR 0x0D,
                 CHR 0x1C, CHR 0x1D, CHR 0x1E, CHR 0x1F, CHR 0x20])"

definition isdigit_char :: "char \<Rightarrow> bool" where
  "isdigit_char c = (c \<in> set ''0123456789'')"

text \<open>\<open>s.isdigit()\<close>: every character is a digit and there is at least one.\<close>

definition isdigit :: "string \<Rightarrow> bool" where
  "isdigit s = (s \<noteq> [] \<and> list_all isdigit_char s)"

text \<open>\<open>s.strip()\<close>.\<close>

definition py_strip :: "string \<Rightarrow> string" where
  "py_strip s = rev (dropWhile isspace (rev (dropWhile isspace s)))"

text \<open>\<open>s.split()\<close>: the maximal runs of characters that are not spaces; \<open>cur\<close> is the
  run being read, reversed.\<close>

fun words_of :: "string \<Rightarrow> string \<Rightarrow> string list" where
  "words_of cur [] = (if cur = [] then [] else [rev cur])"
| "words_of cur (c # cs) =
     (if isspace c then (if cur = [] then words_of [] cs else rev cur # words_of [] cs)
      else words_of (c # cur) cs)"

definition py_split :: "string \<Rightarrow> string list" where
  "py_split s = words_of [] s"

text \<open>\<open>s.split(sep)\<close> for a one-character separator: empty pieces are kept.\<close>

fun split_on :: "char \<Rightarrow> string \<Rightarrow> string list" where
  "split_on sep [] = [[]]"
| "split_on sep (c # cs) =
     (if c = sep then [] # split_on sep cs
      else (case split_on sep cs of
              [] \<Rightarrow> [[c]]
            | w # ws \<Rightarrow> (c # w) # ws))"

text \<open>\<open>s.startswith(k)\<close>.\<close>

fun startswith :: "string \<Rightarrow> string \<Rightarrow> bool" where
  "startswith [] s = True"
| "startswith (k # ks) [] = False"
| "startswith (k # ks) (c # cs) = (k = c \<and> startswith ks cs)"

text \<open>\<open>k in s\<close> for strings: \<open>k\<close> occurs in \<open>s\<close> as a contiguous piece.\<close>

fun str_in :: "string \<Rightarrow> string \<Rightarrow> bool" where
  "str_in k [] = (k = [])"
| "str_in k (c # cs) = (startswith k (c # cs) \<or> str_in k cs)"

text \<open>\<open>sep.join(xs)\<close>.\<close>

fun join :: "string \<Rightarrow> string list \<Rightarrow> string" where
  "join sep [] = []"
| "join sep [x] = x"
| "join sep (x # y # ys) = x @ sep @ join sep (y # ys)"

text \<open>ASCII \<open>str.upper\<close>.\<close>

definition upper_char :: "char \<Rightarrow> char" where
  "upper_char c =
     (case map_of (zip ''abcdefghijklmnopqrstuvwxyz'' ''ABCDEFGHIJKLMNOPQRSTUVWXYZ'') c of
        Some u \<Rightarrow> u
      | None \<Rightarrow> c)"

definition upper :: "string \<Rightarrow> string" where
  "upper s = map upper_char s"

definition lower_char :: "char \<Rightarrow> char" where
  "lower_char c =
     (case map_of (zip ''ABCDEFGHIJKLMNOPQRSTUVWXYZ'' ''abcdefghijklmnopqrstuvwxyz'') c of
        Some l \<Rightarrow> l
      | None \<Rightarrow> c)"

definition lower :: "string \<Rightarrow> string" where
  "lower s = map lower_char s"

text \<open>\<open>str(n)\<close> for an integer.\<close>

fun str_nat :: "nat \<Rightarrow> string" where
  "str_nat n =
     (if n < 10 then [''0123456789'' ! n]
      else str_nat (n div 10) @ [''0123456789'' ! (n mod 10)])"

declare str_nat.simps [simp del]

definition str_int :: "int \<Rightarrow> string" where
  "str_int i = (if i < 0 then ''-'' @ str_nat (nat (- i)) else str_nat (nat i))"

text \<open>
  \<open>int(s)\<close> for a string: spaces around the literal are dropped, a sign may lead, and
  the digits may be grouped by single underscores. \<open>None\<close> is Python's \<open>ValueError\<close>.
  (The interpreter's limit on the length of a decimal literal is not modelled.)
\<close>

definition digit_val :: "char \<Rightarrow> nat" where
  "digit_val c = (case map_of (zip ''0123456789'' [0, 1, 2, 3, 4, 5, 6, 7, 8, 9]) c of Some d \<Rightarrow> d | None \<Rightarrow> 0)"

fun digits_value :: "nat \<Rightarrow> string \<Rightarrow> nat" where
  "digits_value acc [] = acc"
| "digits_value acc (c # cs) = digits_value (10 * acc + digit_val c) cs"

fun int_body_ok :: "string \<Rightarrow> bool" where
  "int_body_ok [] = False"
| "int_body_ok [c] = isdigit_char c"
| "int_body_ok (c # d # cs) =
     (isdigit_char c \<and> (if d = CHR ''_'' then int_body_ok cs else int_body_ok (d # cs)))"

definition int_of_str :: "string \<Rightarrow> int option" where
  "int_of_str s =
     (let t = py_strip s;
          negative = (t \<noteq> [] \<and> hd t = CHR ''-'');
          body = (if t \<noteq> [] \<and> (hd t = CHR ''-'' \<or> hd t = CHR ''+'') then tl t else t)
      in if int_body_ok body
         then Some ((if negative then - 1 else 1)
                    * int (digits_value 0 (filter (\<lambda>c. c \<noteq> CHR ''_'') body)))
         else None)"

text \<open>
  Reading a text file. A file's content is a list of decoded characters, with \<open>None\<close>
  standing for a byte sequence the codec of the reader cannot decode. A strict reader
  raises on such a sequence, a reader opened with \<open>errors="ignore"\<close> drops it. Text mode
  turns the line ends \<open>\r\n\<close> and \<open>\r\<close> into \<open>\n\<close>; iterating the file (and
  \<open>readlines\<close>) yields the lines with their terminator.
\<close>

type_synonym content = "char option list"

definition decode_ignore :: "content \<Rightarrow> string" where
  "decode_ignore c = List.map_filter (\<lambda>x. x) c"

fun universal_newlines :: "string \<Rightarrow> string" where
  "universal_newlines [] = []"
| "universal_newlines [c] = (if c = CR then [LF] else [c])"
| "universal_newlines (c # d # cs) =
     (if c = CR \<and> d = LF then LF # universal_newlines cs
      else if c = CR then LF # universal_newlines (d # cs)
      else c # universal_newlines (d # cs))"

fun lines_of :: "string \<Rightarrow> string \<Rightarrow> string list" where
  "lines_of cur [] = (if cur = [] then [] else [rev cur])"
| "lines_of cur (c # cs) =
     (if c = LF then rev (c # cur) # lines_of [] cs else lines_of (c # cur) cs)"

definition readlines :: "string \<Rightarrow> string list" where
  "readlines t = lines_of [] (universal_newlines t)"

section \<open>Errors and log records\<close>

text \<open>
  The messages of the source are in Chinese; each is modelled by a constructor that
  carries the values the message interpolates. \<open>reason_text\<close> is the
  \<open>"/".join(state) if state else ...\<close> of \<open>check_convergence\<close>.
\<close>

datatype reason = EDIFF_not_met | Not_finished

datatype reason_text = Joined "reason list" | Unknown_reason

datatype message =
    Missing_OUTCAR string
  | Unconverged string reason_text
  | Unconverged_batch nat
  | Command_failed "string list"
  | No_POSCAR_files
  | No_dispersion_folders string
  | Missing_vasprun string
  | Empty_vasprun string
  | Missing_snapshot
  | Corrupt_snapshot
  | Missing_unitcell
  | Too_few_points
  | Unknown_point string
  | Incomplete_POSCAR
  | Invalid_literal string
  | No_such_file string

text \<open>
  The exceptions. \<open>OtherException\<close> stands for any further class derived from
  \<open>Exception\<close> that the crystallography helper may raise. Every constructor is a
  subclass of \<open>Exception\<close>; \<open>UnicodeDecodeError\<close> is a subclass of \<open>ValueError\<close>.
\<close>

datatype error =
    RuntimeError message
  | FileNotFoundError message
  | ValueError message
  | TypeError
  | KeyError string
  | OverflowError
  | EOFError
  | FileExistsError string
  | IsADirectoryError string
  | PermissionError string
  | NotADirectoryError string
  | UnicodeDecodeError
  | ModuleNotFoundError
  | OtherException

datatype level = INFO | WARNING | ERROR

text \<open>
  The records the modelled functions write with \<open>logger\<close>. What \<open>print\<close> writes
  to the terminal, and the log records of the prompts, of \<open>run_command\<close> and of the
  configuration store, are left out.
\<close>

datatype logmsg =
    Convergence_failed string reason_text
  | Convergence_passed string
  | Found_folders nat
  | Check_failed string
  | Rule
  | Unconverged_found
  | Unconverged_count nat
  | Unconverged_list
  | Unconverged_item string
  | All_converged
  | Removed_empty string nat
  | Skipped_file string
  | Overwriting string
  | Moving string string
  | Elements_read string
  | Elements_unreadable error
  | Helper_missing
  | Helper_failed error
  | Default_path
  | Point_not_found string
  | Helper_path "string list"

type_synonym event = "level \<times> logmsg"

section \<open>The working directory\<close>

text \<open>
  The working directory holds regular files and directories; a directory of the
  working directory (a work directory) holds regular files. The files of a work
  directory are written by the external computation: each of them is one that the
  process may open for reading, or one that it may not (\<open>open\<close> then raises
  \<open>PermissionError\<close>); \<open>exists\<close>, \<open>is_file\<close>, \<open>stat\<close>, \<open>unlink\<close> and a move do not
  depend on that right. Deeper nesting and links are outside this model, so
  \<open>is_file()\<close> holds of every child of a work directory. A directory is an association
  list, in which the first entry of a name counts.
\<close>

datatype entry = Readable content | Unreadable content

fun bytes :: "entry \<Rightarrow> content" where
  "bytes (Readable c) = c"
| "bytes (Unreadable c) = c"

datatype node = File content | Dir "(string \<times> entry) list"

type_synonym files = "(string \<times> node) list"

text \<open>The content of \<open>folder / name\<close>, when it exists.\<close>

definition child :: "files \<Rightarrow> string \<Rightarrow> string \<Rightarrow> content option" where
  "child fs folder name =
     (case map_of fs folder of
        Some (Dir d) \<Rightarrow> map_option bytes (map_of d name)
      | _ \<Rightarrow> None)"

text \<open>Whether \<open>folder / name\<close> is a file that the process may open for reading.\<close>

definition readable :: "files \<Rightarrow> string \<Rightarrow> string \<Rightarrow> bool" where
  "readable fs folder name =
     (case map_of fs folder of
        Some (Dir d) \<Rightarrow> (case map_of d name of Some (Readable c) \<Rightarrow> True | _ \<Rightarrow> False)
      | _ \<Rightarrow> False)"


section \<open>Convergence of one work directory\<close>

definition keyword_converged :: string where
  "keyword_converged = ''aborting loop because EDIFF is reached''"

definition keyword_finished :: string where
  "keyword_finished = ''Voluntary''"

text \<open>
  The \<open>for line in handle\<close> loop of \<open>check_convergence\<close>: the two flags, and the
  number of lines read when the loop ends (by \<open>break\<close> or at the end of the file).
\<close>

fun scan_outcar :: "string list \<Rightarrow> bool \<Rightarrow> bool \<Rightarrow> nat \<Rightarrow> bool \<times> bool \<times> nat" where
  "scan_outcar [] converged finished n = (converged, finished, n)"
| "scan_outcar (line # rest) converged finished n =
     (let converged' = (if str_in keyword_converged line then True else converged);
          finished' = (if str_in keyword_finished line then True else finished)
      in if converged' \<and> finished' then (converged', finished', Suc n)
         else scan_outcar rest converged' finished' (Suc n))"

definition outcar_lines :: "content \<Rightarrow> string list" where
  "outcar_lines c = readlines (decode_ignore c)"

text \<open>The text a reader of the log sees: what \<open>outcar_lines\<close> splits into lines.\<close>

definition outcar_text :: "content \<Rightarrow> string" where
  "outcar_text c = universal_newlines (decode_ignore c)"

text \<open>
  \<open>check_convergence\<close>: \<open>outcar.exists()\<close>, then \<open>outcar.open\<close>, which raises when
  the file may not be read, then the scan.
\<close>

definition check_convergence :: "files \<Rightarrow> string \<Rightarrow> (error + unit) \<times> event list" where
  "check_convergence fs folder =
     (case child fs folder ''OUTCAR'' of
        None \<Rightarrow> (Inl (RuntimeError (Missing_OUTCAR folder)), [])
      | Some c \<Rightarrow>
          if \<not> readable fs folder ''OUTCAR'' then (Inl (PermissionError (folder @ ''/OUTCAR'')), [])
          else
          (case scan_outcar (outcar_lines c) False False 0 of
             (converged, finished, n) \<Rightarrow>
               if \<not> (converged \<and> finished) then
                 (let state = (if \<not> converged then [EDIFF_not_met] else [])
                            @ (if \<not> finished then [Not_finished] else []);
                      reason = (if state \<noteq> [] then Joined state else Unknown_reason)
                  in (Inl (RuntimeError (Unconverged folder reason)),
                      [(ERROR, Convergence_failed folder reason)]))
               else (Inr (), [(INFO, Convergence_passed folder)])))"

section \<open>Work directories: displacement, cleaning, aggregation\<close>

definition decode_strict :: "content \<Rightarrow> error + string" where
  "decode_strict c = (if None \<in> set c then Inl UnicodeDecodeError else Inr (map the c))"

definition is_file :: "files \<Rightarrow> string \<Rightarrow> bool" where
  "is_file fs name = (case map_of fs name of Some (File c) \<Rightarrow> True | _ \<Rightarrow> False)"

definition is_dir :: "files \<Rightarrow> string \<Rightarrow> bool" where
  "is_dir fs name = (case map_of fs name of Some (Dir d) \<Rightarrow> True | _ \<Rightarrow> False)"

text \<open>The names a directory lists.\<close>

definition listing :: "(string \<times> 'a) list \<Rightarrow> string list" where
  "listing al = remdups (map fst al)"

text \<open>
  An external command is a parameter of the model: given the command line and the
  working directory, it yields its return code and the working directory it leaves.
  \<open>run_command\<close> raises when the return code is not zero.
\<close>

type_synonym tool = "string list \<Rightarrow> files \<Rightarrow> int \<times> files"

definition run_command :: "tool \<Rightarrow> string list \<Rightarrow> files \<Rightarrow> (error + unit) \<times> files" where
  "run_command tool command fs =
     (case tool command fs of
        (returncode, fs') \<Rightarrow>
          if returncode \<noteq> 0 then (Inl (RuntimeError (Command_failed command)), fs')
          else (Inr (), fs'))"

text \<open>
  The last steps of one round of the loop of \<open>run_displacements\<close>, once the work
  directory \<open>dest_dir\<close> exists with the children \<open>d\<close>: a \<open>POSCAR\<close> already there is
  unlinked, and the generated file is moved in under that name.
\<close>

definition move_into ::
  "string \<Rightarrow> string \<Rightarrow> (string \<times> entry) list \<Rightarrow> files \<Rightarrow> (error + unit) \<times> files \<times> event list" where
  "move_into name dest_dir d fs =
     (let dest_poscar = dest_dir @ ''/POSCAR'';
          ev = (if map_of d ''POSCAR'' \<noteq> None then [(INFO, Overwriting dest_poscar)] else [])
               @ [(INFO, Moving name dest_poscar)];
          d1 = AList.delete ''POSCAR'' d
      in case map_of fs name of
           Some (File c) \<Rightarrow>
             (Inr (),
              AList.delete name (AList.update dest_dir (Dir (AList.update ''POSCAR'' (Readable c) d1)) fs),
              ev)
         | _ \<Rightarrow>
             (Inl (FileNotFoundError (No_such_file name)),
              AList.update dest_dir (Dir d1) fs, ev))"

text \<open>
  One round of the loop: the name is split at \<open>-\<close>; a name that is not of two parts
  with a numeric second part is skipped; \<open>mkdir(parents=True, exist_ok=True)\<close> raises
  \<open>FileExistsError\<close> when the name of the work directory is taken by a regular file.
\<close>

definition relocate_one :: "string \<Rightarrow> string \<Rightarrow> files \<Rightarrow> (error + unit) \<times> files \<times> event list" where
  "relocate_one pre name fs =
     (let parts = split_on CHR ''-'' name in
      if length parts \<noteq> 2 \<or> \<not> isdigit (parts ! 1) then (Inr (), fs, [(INFO, Skipped_file name)])
      else
        (let suffix = parts ! 1;
             dest_dir = pre @ ''-'' @ suffix
         in case map_of fs dest_dir of
              Some (File c) \<Rightarrow> (Inl (FileExistsError dest_dir), fs, [])
            | Some (Dir d) \<Rightarrow> move_into name dest_dir d fs
            | None \<Rightarrow> move_into name dest_dir [] (AList.update dest_dir (Dir []) fs)))"

fun relocate :: "string \<Rightarrow> string list \<Rightarrow> files \<Rightarrow> event list \<Rightarrow> (error + unit) \<times> files \<times> event list" where
  "relocate pre [] fs ev = (Inr (), fs, ev)"
| "relocate pre (src # rest) fs ev =
     (case relocate_one pre src fs of
        (Inl e, fs', ev') \<Rightarrow> (Inl e, fs', ev @ ev')
      | (Inr u, fs', ev') \<Rightarrow> relocate pre rest fs' (ev @ ev'))"

text \<open>\<open>sorted(path for path in Path.cwd().glob("POSCAR-*") if path.is_file())\<close>.\<close>

definition poscar_files :: "files \<Rightarrow> string list" where
  "poscar_files fs = sort [n \<leftarrow> listing fs. startswith ''POSCAR-'' n \<and> is_file fs n]"

section \<open>The configuration and its persisted record\<close>

text \<open>
  The record file holds a JSON document; \<open>json.dumps\<close> and \<open>json.loads\<close> are
  abstracted to the JSON value they write and read. A JSON object is the association
  list of a Python \<open>dict\<close>. A float is the rational it denotes, or one of the three
  non-finite values Python's parser accepts.
\<close>

datatype pyfloat = Finite rat | PosInf | NegInf | NaN

datatype json =
    JNull
  | JBool bool
  | JInt int
  | JFloat pyfloat
  | JStr string
  | JList "json list"
  | JObj "(string \<times> json) list"

text \<open>
  \<open>WorkflowConfig\<close>. Python does not check the annotations of the dataclass: the
  fields that \<open>load_config_snapshot\<close> takes from the record unconverted hold whatever
  JSON value the record has there.
\<close>

record WorkflowConfig =
  stage :: string
  dims :: "int list"
  prefix :: json
  poscar_path :: "string option"
  apply_symmetry :: bool
  atom_name :: json
  band_points :: int
  band_labels :: json
  band_sequence :: "json list"

text \<open>The label string \<open>$\Gamma$ M K $\Gamma$\<close>; \<open>0x5C\<close> is the backslash.\<close>

definition gamma_label :: string where
  "gamma_label = CHR ''$'' # CHR 0x5C # ''Gamma$''"

definition default_band_labels :: string where
  "default_band_labels = gamma_label @ '' M K '' @ gamma_label"

text \<open>The file \<open>workflow_state.json\<close>: absent, a JSON document, or not JSON at all.\<close>

datatype snapshot = Parsed json | Unparsable

definition snapshot_data :: "WorkflowConfig \<Rightarrow> json" where
  "snapshot_data config =
     JObj [(''dims'', JList (map JInt (dims config))),
           (''prefix'', prefix config),
           (''atom_name'', atom_name config),
           (''band_points'', JInt (band_points config)),
           (''band_labels'', band_labels config),
           (''band_sequence'', JList (band_sequence config)),
           (''poscar_path'', (case poscar_path config of Some p \<Rightarrow> JStr p | None \<Rightarrow> JNull)),
           (''apply_symmetry'', JBool (apply_symmetry config))]"

definition save_config_snapshot :: "WorkflowConfig \<Rightarrow> snapshot option \<Rightarrow> snapshot option" where
  "save_config_snapshot config store = Some (Parsed (snapshot_data config))"

text \<open>\<open>int(v)\<close>, \<open>bool(v)\<close> and iteration over \<open>v\<close>, for a value read from JSON.\<close>

definition py_int :: "json \<Rightarrow> error + int" where
  "py_int v =
     (case v of
        JInt n \<Rightarrow> Inr n
      | JBool b \<Rightarrow> Inr (if b then 1 else 0)
      | JFloat (Finite q) \<Rightarrow> Inr (if 0 \<le> q then \<lfloor>q\<rfloor> else \<lceil>q\<rceil>)
      | JFloat NaN \<Rightarrow> Inl (ValueError (Invalid_literal ''nan''))
      | JFloat _ \<Rightarrow> Inl OverflowError
      | JStr s \<Rightarrow> (case int_of_str s of Some n \<Rightarrow> Inr n | None \<Rightarrow> Inl (ValueError (Invalid_literal s)))
      | _ \<Rightarrow> Inl TypeError)"

definition py_bool :: "json \<Rightarrow> bool" where
  "py_bool v =
     (case v of
        JNull \<Rightarrow> False
      | JBool b \<Rightarrow> b
      | JInt n \<Rightarrow> n \<noteq> 0
      | JFloat f \<Rightarrow> f \<noteq> Finite 0
      | JStr s \<Rightarrow> s \<noteq> []
      | JList xs \<Rightarrow> xs \<noteq> []
      | JObj kv \<Rightarrow> kv \<noteq> [])"

definition py_iter :: "json \<Rightarrow> error + json list" where
  "py_iter v =
     (case v of
        JList xs \<Rightarrow> Inr xs
      | JStr s \<Rightarrow> Inr (map (\<lambda>c. JStr [c]) s)
      | JObj kv \<Rightarrow> Inr (map (\<lambda>k. JStr k) (listing kv))
      | _ \<Rightarrow> Inl TypeError)"

fun int_all :: "json list \<Rightarrow> error + int list" where
  "int_all [] = Inr []"
| "int_all (v # vs) =
     (case py_int v of
        Inl e \<Rightarrow> Inl e
      | Inr n \<Rightarrow> (case int_all vs of Inl e \<Rightarrow> Inl e | Inr ns \<Rightarrow> Inr (n # ns)))"

text \<open>\<open>data.get(key, default)\<close> on the items of a \<open>dict\<close>.\<close>

definition dict_get :: "(string \<times> json) list \<Rightarrow> string \<Rightarrow> json \<Rightarrow> json" where
  "dict_get kv key dflt = (case map_of kv key of Some v \<Rightarrow> v | None \<Rightarrow> dflt)"

text \<open>
  The body of the \<open>try\<close> of \<open>load_config_snapshot\<close>, after the document is parsed.
  \<open>data["dims"]\<close> raises \<open>TypeError\<close> on a document that is not an object and
  \<open>KeyError\<close> on an object without the key.
\<close>

definition snapshot_fields ::
  "json \<Rightarrow> error + (int list \<times> json \<times> json \<times> int \<times> json \<times> json list \<times> json \<times> bool)" where
  "snapshot_fields data =
     (case data of
        JObj kv \<Rightarrow>
          (case map_of kv ''dims'' of
             None \<Rightarrow> Inl (KeyError ''dims'')
           | Some dv \<Rightarrow>
          (case py_iter dv of
             Inl e \<Rightarrow> Inl e
           | Inr vs \<Rightarrow>
          (case int_all vs of
             Inl e \<Rightarrow> Inl e
           | Inr dims_v \<Rightarrow>
          (case map_of kv ''prefix'' of
             None \<Rightarrow> Inl (KeyError ''prefix'')
           | Some prefix_v \<Rightarrow>
          (case py_int (dict_get kv ''band_points'' (JInt 51)) of
             Inl e \<Rightarrow> Inl e
           | Inr band_points_v \<Rightarrow>
          (case py_iter (dict_get kv ''band_sequence''
                           (JList [JStr ''G'', JStr ''M'', JStr ''K'', JStr ''G''])) of
             Inl e \<Rightarrow> Inl e
           | Inr band_sequence_v \<Rightarrow>
               Inr (dims_v, prefix_v,
                    dict_get kv ''atom_name'' (JStr ''BO3''),
                    band_points_v,
                    dict_get kv ''band_labels'' (JStr default_band_labels),
                    band_sequence_v,
                    dict_get kv ''poscar_path'' JNull,
                    py_bool (dict_get kv ''apply_symmetry'' (JBool True)))))))))
      | _ \<Rightarrow> Inl TypeError)"

text \<open>\<open>except (KeyError, ValueError, TypeError)\<close>.\<close>

definition caught_on_load :: "error \<Rightarrow> bool" where
  "caught_on_load e =
     (case e of
        KeyError k \<Rightarrow> True
      | ValueError m \<Rightarrow> True
      | TypeError \<Rightarrow> True
      | UnicodeDecodeError \<Rightarrow> True
      | _ \<Rightarrow> False)"

text \<open>
  \<open>load_config_snapshot\<close>. \<open>expanduser\<close> is \<open>Path.expanduser\<close>, a parameter. After
  the \<open>try\<close>, \<open>Path(poscar_value)\<close> raises \<open>TypeError\<close> on a value that is true and
  not a string.
\<close>

definition load_config_snapshot ::
  "(string \<Rightarrow> string) \<Rightarrow> string \<Rightarrow> snapshot option \<Rightarrow> error + WorkflowConfig" where
  "load_config_snapshot expanduser stage_v store =
     (case store of
        None \<Rightarrow> Inl (FileNotFoundError Missing_snapshot)
      | Some Unparsable \<Rightarrow> Inl (RuntimeError Corrupt_snapshot)
      | Some (Parsed data) \<Rightarrow>
          (case snapshot_fields data of
             Inl e \<Rightarrow> (if caught_on_load e then Inl (RuntimeError Corrupt_snapshot) else Inl e)
           | Inr (dims_v, prefix_v, atom_name_v, band_points_v, band_labels_v,
                  band_sequence_v, poscar_value, apply_symmetry_v) \<Rightarrow>
               (case (if py_bool poscar_value
                      then (case poscar_value of
                              JStr p \<Rightarrow> Inr (Some (expanduser p))
                            | _ \<Rightarrow> Inl TypeError)
                      else Inr None) of
                  Inl e \<Rightarrow> Inl e
                | Inr poscar_path_v \<Rightarrow>
                    Inr \<lparr>stage = stage_v, dims = dims_v, prefix = prefix_v,
                         poscar_path = poscar_path_v, apply_symmetry = apply_symmetry_v,
                         atom_name = atom_name_v, band_points = band_points_v,
                         band_labels = band_labels_v, band_sequence = band_sequence_v\<rparr>)))"

section \<open>Prompts\<close>

text \<open>
  The operator's input is the list of the lines \<open>input()\<close> will return; at its end
  \<open>input()\<close> raises \<open>EOFError\<close>. Each prompt returns the lines it has not read.
\<close>

fun prompt_user :: "string option \<Rightarrow> string list \<Rightarrow> (error + string) \<times> string list" where
  "prompt_user dflt [] = (Inl EOFError, [])"
| "prompt_user dflt (line # rest) =
     (let typed = py_strip line;
          response = (if typed = [] \<and> dflt \<noteq> None then the dflt else typed)
      in if response \<noteq> [] then (Inr response, rest) else prompt_user dflt rest)"

lemma prompt_user_shorter:
  "prompt_user dflt inputs = (Inr r, rest) \<Longrightarrow> length rest < length inputs"
  by (induction inputs) (auto simp: Let_def split: if_splits)

function prompt_yes_no :: "bool \<Rightarrow> string list \<Rightarrow> (error + bool) \<times> string list" where
  "prompt_yes_no dflt inputs =
     (case prompt_user (Some (if dflt then ''y'' else ''n'')) inputs of
        (Inl e, rest) \<Rightarrow> (Inl e, rest)
      | (Inr response, rest) \<Rightarrow>
          (let reply = lower response in
           if reply \<in> {''y'', ''yes''} then (Inr True, rest)
           else if reply \<in> {''n'', ''no''} then (Inr False, rest)
           else prompt_yes_no dflt rest))"
  by pat_completeness auto
termination
  by (relation "measure (\<lambda>(d, inputs). length inputs)") (auto dest: prompt_user_shorter[OF sym])

declare prompt_yes_no.simps [simp del]

text \<open>\<open>tuple(int(part) for part in parts)\<close>: \<open>None\<close> when some part is not a literal.\<close>

fun int_parts :: "string list \<Rightarrow> int list option" where
  "int_parts [] = Some []"
| "int_parts (part # parts) =
     (case int_of_str part of
        None \<Rightarrow> None
      | Some n \<Rightarrow> (case int_parts parts of None \<Rightarrow> None | Some ns \<Rightarrow> Some (n # ns)))"

function prompt_int_list :: "nat \<Rightarrow> int list \<Rightarrow> string list \<Rightarrow> (error + int list) \<times> string list" where
  "prompt_int_list count dflt inputs =
     (case prompt_user (Some (join '' '' (map str_int dflt))) inputs of
        (Inl e, rest) \<Rightarrow> (Inl e, rest)
      | (Inr response, rest) \<Rightarrow>
          (let parts = py_split response in
           if length parts \<noteq> count then prompt_int_list count dflt rest
           else (case int_parts parts of
                   Some values \<Rightarrow> (Inr values, rest)
                 | None \<Rightarrow> prompt_int_list count dflt rest)))"
  by pat_completeness auto
termination
  by (relation "measure (\<lambda>(c, d, inputs). length inputs)") (auto dest: prompt_user_shorter[OF sym])

declare prompt_int_list.simps [simp del]

text \<open>
  The first loop of \<open>collect_configuration\<close>: the file name is asked for until
  \<open>Path.cwd() / name\<close> exists. \<open>path_exists\<close> (the answer of the file system) and
  \<open>resolve\<close> (\<open>Path.resolve\<close>) are parameters.
\<close>

function prompt_poscar ::
  "(string \<Rightarrow> bool) \<Rightarrow> (string \<Rightarrow> string) \<Rightarrow> string list \<Rightarrow> (error + string) \<times> string list" where
  "prompt_poscar path_exists resolve inputs =
     (case prompt_user (Some ''POSCAR'') inputs of
        (Inl e, rest) \<Rightarrow> (Inl e, rest)
      | (Inr poscar_filename, rest) \<Rightarrow>
          if path_exists poscar_filename then (Inr (resolve poscar_filename), rest)
          else prompt_poscar path_exists resolve rest)"
  by pat_completeness auto
termination
  by (relation "measure (\<lambda>(p, r, inputs). length inputs)") (auto dest: prompt_user_shorter[OF sym])

declare prompt_poscar.simps [simp del]

text \<open>
  \<open>collect_configuration\<close>: the configuration, the input left, and the record file.
\<close>

definition collect_configuration ::
  "(string \<Rightarrow> bool) \<Rightarrow> (string \<Rightarrow> string) \<Rightarrow> (string \<Rightarrow> string) \<Rightarrow> string \<Rightarrow> string list \<Rightarrow> snapshot option
     \<Rightarrow> (error + WorkflowConfig) \<times> string list \<times> snapshot option" where
  "collect_configuration path_exists resolve expanduser stage_v inputs store =
     (if stage_v = ''post'' then (load_config_snapshot expanduser stage_v store, inputs, store)
      else
        (case prompt_poscar path_exists resolve inputs of
           (Inl e, in1) \<Rightarrow> (Inl e, in1, store)
         | (Inr poscar_path_v, in1) \<Rightarrow>
        (case prompt_yes_no True in1 of
           (Inl e, in2) \<Rightarrow> (Inl e, in2, store)
         | (Inr apply_symmetry_v, in2) \<Rightarrow>
        (case prompt_int_list 3 [2, 2, 2] in2 of
           (Inl e, in3) \<Rightarrow> (Inl e, in3, store)
         | (Inr dims_v, in3) \<Rightarrow>
        (case prompt_user (Some ''441Mono2bo3-disp'') in3 of
           (Inl e, in4) \<Rightarrow> (Inl e, in4, store)
         | (Inr prefix_v, in4) \<Rightarrow>
             (let config = \<lparr>stage = stage_v, dims = dims_v, prefix = JStr prefix_v,
                             poscar_path = Some poscar_path_v,
                             apply_symmetry = apply_symmetry_v,
                             atom_name = JStr ''BO3'', band_points = 51,
                             band_labels = JStr default_band_labels,
                             band_sequence = [JStr ''G'', JStr ''M'', JStr ''K'', JStr ''G'']\<rparr>
              in (Inr config, in4, save_config_snapshot config store)))))))"

section \<open>Pre-processing: the displacement generator\<close>

text \<open>
  What an f-string renders for a value of the configuration. The program passes strings
  here; the rendering of floats and containers is left unspecified.
\<close>

fun py_str :: "json \<Rightarrow> string" where
  "py_str (JStr s) = s"
| "py_str (JInt n) = str_int n"
| "py_str (JBool b) = (if b then ''True'' else ''False'')"
| "py_str JNull = ''None''"

definition run_displacements ::
  "tool \<Rightarrow> WorkflowConfig \<Rightarrow> string \<Rightarrow> files \<Rightarrow> (error + unit) \<times> files \<times> event list" where
  "run_displacements tool config unitcell_path fs =
     (let dim_args = map str_int (dims config) in
      case run_command tool
             ([''phonopy'', ''-d'', ''--dim''] @ dim_args @ [''--pa'', ''auto'', ''-c'', unitcell_path])
             fs of
        (Inl e, fs1) \<Rightarrow> (Inl e, fs1, [])
      | (Inr u, fs1) \<Rightarrow>
          if poscar_files fs1 = [] then (Inl (RuntimeError No_POSCAR_files), fs1, [])
          else relocate (py_str (prefix config)) (poscar_files fs1) fs1 [])"

section \<open>Post-processing\<close>

text \<open>
  \<open>pattern.match(name)\<close> for \<open>^{re.escape(prefix)}-(\d+)$\<close>: the name is the prefix,
  a hyphen and one or more digits; \<open>$\<close> also matches before a line feed that ends
  the name.
\<close>

definition dispersion_pattern_match :: "string \<Rightarrow> string \<Rightarrow> bool" where
  "dispersion_pattern_match pre name =
     (startswith (pre @ ''-'') name \<and>
      (let rest = drop (length pre + 1) name;
           digits = (if rest \<noteq> [] \<and> last rest = LF then butlast rest else rest)
       in digits \<noteq> [] \<and> list_all isdigit_char digits))"

text \<open>
  \<open>find_dispersion_folders\<close>. The matching of a name against a glob pattern is a
  parameter (\<open>fnmatch\<close>: pattern, name); the candidates are the entries of the working
  directory whose name the pattern matches.
\<close>

definition find_dispersion_folders ::
  "(string \<Rightarrow> string \<Rightarrow> bool) \<Rightarrow> string \<Rightarrow> files \<Rightarrow> error + string list" where
  "find_dispersion_folders fnmatch pre fs =
     (let candidates = sort [n \<leftarrow> listing fs. fnmatch (pre @ ''-*'') n];
          folders = [item \<leftarrow> candidates. is_dir fs item \<and> dispersion_pattern_match pre item]
      in if folders = [] then Inl (RuntimeError (No_dispersion_folders pre)) else Inr folders)"

text \<open>
  A glob matcher for the patterns that are a literal text followed by one \<open>*\<close>, the
  literal text free of the metacharacters of \<open>fnmatch\<close>.
\<close>

definition fnmatch_literal_star :: "string \<Rightarrow> string \<Rightarrow> bool" where
  "fnmatch_literal_star pat name = startswith (butlast pat) name"

text \<open>
  \<open>clean_empty_files\<close>: every child of size zero is unlinked. \<open>iterdir\<close> raises when
  the folder is not a directory.
\<close>

definition clean_empty_files :: "files \<Rightarrow> string \<Rightarrow> (error + unit) \<times> files \<times> event list" where
  "clean_empty_files fs folder =
     (case map_of fs folder of
        None \<Rightarrow> (Inl (FileNotFoundError (No_such_file folder)), fs, [])
      | Some (File c) \<Rightarrow> (Inl (NotADirectoryError folder), fs, [])
      | Some (Dir d) \<Rightarrow>
          (let removed = length [n \<leftarrow> listing d. map_option bytes (map_of d n) = Some []];
               d' = [(n, e) \<leftarrow> d. map_option bytes (map_of d n) \<noteq> Some []]
           in (Inr (), AList.update folder (Dir d') fs,
               if removed \<noteq> 0 then [(INFO, Removed_empty folder removed)] else [])))"

text \<open>The loop \<open>for folder in folders: clean_empty_files(folder)\<close>.\<close>

fun clean_folders :: "files \<Rightarrow> string list \<Rightarrow> event list \<Rightarrow> (error + unit) \<times> files \<times> event list" where
  "clean_folders fs [] ev = (Inr (), fs, ev)"
| "clean_folders fs (folder # rest) ev =
     (case clean_empty_files fs folder of
        (Inl e, fs', ev') \<Rightarrow> (Inl e, fs', ev @ ev')
      | (Inr u, fs', ev') \<Rightarrow> clean_folders fs' rest (ev @ ev'))"

fun collect_vasprun_paths :: "files \<Rightarrow> string list \<Rightarrow> error + string list" where
  "collect_vasprun_paths fs [] = Inr []"
| "collect_vasprun_paths fs (folder # rest) =
     (case child fs folder ''vasprun.xml'' of
        None \<Rightarrow> Inl (RuntimeError (Missing_vasprun folder))
      | Some c \<Rightarrow>
          if c = [] then Inl (RuntimeError (Empty_vasprun folder))
          else (case collect_vasprun_paths fs rest of
                  Inl e \<Rightarrow> Inl e
                | Inr paths \<Rightarrow> Inr ((folder @ ''/vasprun.xml'') # paths)))"

text \<open>
  The convergence loop of \<open>run_postprocessing\<close>: \<open>except RuntimeError\<close> records the
  folder and goes on; any other exception leaves the loop.
\<close>

fun convergence_loop ::
  "files \<Rightarrow> string list \<Rightarrow> string list \<Rightarrow> event list \<Rightarrow> (error + string list) \<times> event list" where
  "convergence_loop fs [] unconverged_folders ev = (Inr unconverged_folders, ev)"
| "convergence_loop fs (folder # rest) unconverged_folders ev =
     (case check_convergence fs folder of
        (Inr u, ev') \<Rightarrow> convergence_loop fs rest unconverged_folders (ev @ ev')
      | (Inl (RuntimeError m), ev') \<Rightarrow>
          convergence_loop fs rest (unconverged_folders @ [folder])
            (ev @ ev' @ [(ERROR, Check_failed folder)])
      | (Inl e, ev') \<Rightarrow> (Inl e, ev @ ev'))"

text \<open>The records written when some folder is unconverged.\<close>

definition unconverged_report :: "string list \<Rightarrow> event list" where
  "unconverged_report unconverged_folders =
     [(ERROR, Rule), (ERROR, Unconverged_found),
      (ERROR, Unconverged_count (length unconverged_folders)), (ERROR, Unconverged_list)]
     @ map (\<lambda>folder. (ERROR, Unconverged_item folder)) unconverged_folders
     @ [(ERROR, Rule)]"

text \<open>
  \<open>run_postprocessing\<close>, through the invocation of \<open>phonopy -f\<close>. What follows in the
  source (the check of \<open>FORCE_SETS\<close>, \<open>band.conf\<close>, the band calculation and the
  plot) is not part of this function's model; \<open>read_atom_name_from_poscar\<close> and
  \<open>determine_band_path\<close> are modelled below. \<open>re.escape\<close> raises \<open>TypeError\<close> on a
  prefix that is not a string.
\<close>

definition run_postprocessing ::
  "(string \<Rightarrow> string \<Rightarrow> bool) \<Rightarrow> tool \<Rightarrow> WorkflowConfig \<Rightarrow> files \<Rightarrow> (error + unit) \<times> files \<times> event list" where
  "run_postprocessing fnmatch tool config fs =
     (if map_of fs ''POSCAR-unitcell'' = None then (Inl (FileNotFoundError Missing_unitcell), fs, [])
      else
        (case prefix config of
           JStr pre \<Rightarrow>
             (case find_dispersion_folders fnmatch pre fs of
                Inl e \<Rightarrow> (Inl e, fs, [])
              | Inr folders \<Rightarrow>
                  (case convergence_loop fs folders [] [(INFO, Found_folders (length folders))] of
                     (Inl e, ev) \<Rightarrow> (Inl e, fs, ev)
                   | (Inr unconverged_folders, ev) \<Rightarrow>
                       if unconverged_folders \<noteq> [] then
                         (Inl (RuntimeError (Unconverged_batch (length unconverged_folders))), fs,
                          ev @ unconverged_report unconverged_folders)
                       else
                         (case clean_folders fs folders (ev @ [(INFO, All_converged)]) of
                            (Inl e, fs1, ev1) \<Rightarrow> (Inl e, fs1, ev1)
                          | (Inr u, fs1, ev1) \<Rightarrow>
                              (case collect_vasprun_paths fs1 folders of
                                 Inl e \<Rightarrow> (Inl e, fs1, ev1)
                               | Inr vasprun_paths \<Rightarrow>
                                   (case run_command tool ([''phonopy'', ''-f''] @ vasprun_paths) fs1 of
                                      (r, fs2) \<Rightarrow> (r, fs2, ev1))))))
         | _ \<Rightarrow> (Inl TypeError, fs, [])))"

section \<open>The band-structure specification\<close>

text \<open>
  \<open>read_atom_name_from_poscar\<close>: the body of the \<open>try\<close>, then the function with its
  \<open>except Exception\<close>.
\<close>

definition read_elements :: "files \<Rightarrow> string \<Rightarrow> error + string" where
  "read_elements fs poscar_path_v =
     (case map_of fs poscar_path_v of
        None \<Rightarrow> Inl (FileNotFoundError (No_such_file poscar_path_v))
      | Some (Dir d) \<Rightarrow> Inl (IsADirectoryError poscar_path_v)
      | Some (File c) \<Rightarrow>
          (case decode_strict c of
             Inl e \<Rightarrow> Inl e
           | Inr t \<Rightarrow>
               (let lines = readlines t in
                if length lines < 6 then Inl (ValueError Incomplete_POSCAR)
                else (let element_line = py_strip (lines ! 5);
                          elements = py_split element_line
                      in Inr (concat elements)))))"

definition read_atom_name_from_poscar :: "files \<Rightarrow> string \<Rightarrow> string \<times> event list" where
  "read_atom_name_from_poscar fs poscar_path_v =
     (case read_elements fs poscar_path_v of
        Inr name \<Rightarrow> (name, [(INFO, Elements_read name)])
      | Inl exc \<Rightarrow> (''BO3'', [(WARNING, Elements_unreadable exc)]))"

text \<open>
  Fractional coordinates are the rationals the float literals of the source denote.
  \<open>Gamma_symbol\<close> is the helper's name of the Gamma point (the Greek capital, here by
  its two UTF-8 bytes).
\<close>

type_synonym coord = "rat \<times> rat \<times> rat"

definition fallback_points :: "(string \<times> coord) list" where
  "fallback_points =
     [(''G'', (0, 0, 0)), (''M'', (1 / 2, 0, 0)), (''K'', (1 / 3, - (1 / 3), 0))]"

definition Gamma_symbol :: string where
  "Gamma_symbol = [CHR 0xCE, CHR 0x93]"

text \<open>The loop that turns the sequence of labels into coordinates.\<close>

fun path_coordinates ::
  "(string \<times> coord) list \<Rightarrow> string list \<Rightarrow> coord list \<Rightarrow> event list \<Rightarrow> (error + coord list) \<times> event list" where
  "path_coordinates special_points [] coordinates ev = (Inr coordinates, ev)"
| "path_coordinates special_points (symbol # rest) coordinates ev =
     (let search_symbol =
            (if symbol = ''G'' then Gamma_symbol
             else if symbol = ''GAMMA'' then Gamma_symbol
             else symbol)
      in case map_of special_points search_symbol of
           Some coord \<Rightarrow> path_coordinates special_points rest (coordinates @ [coord]) ev
         | None \<Rightarrow>
             (case map_of special_points symbol of
                Some coord \<Rightarrow> path_coordinates special_points rest (coordinates @ [coord]) ev
              | None \<Rightarrow>
                  (case map_of fallback_points symbol of
                     Some coord \<Rightarrow>
                       path_coordinates special_points rest (coordinates @ [coord])
                         (ev @ [(WARNING, Point_not_found symbol)])
                   | None \<Rightarrow>
                       (Inl (RuntimeError (Unknown_point symbol)),
                        ev @ [(WARNING, Point_not_found symbol)]))))"

text \<open>
  The part of the \<open>try\<close> of \<open>determine_band_path\<close> that follows the helper's answer
  \<open>special_points\<close>: the prompt, the sequence, the coordinates, the labels.
\<close>

definition helper_band_path ::
  "(string \<times> coord) list \<Rightarrow> string list
     \<Rightarrow> (error + (string list \<times> coord list \<times> string)) \<times> string list \<times> event list" where
  "helper_band_path special_points inputs =
     (case prompt_user (Some ''G M K G'') inputs of
        (Inl e, rest) \<Rightarrow> (Inl e, rest, [])
      | (Inr path_input, rest) \<Rightarrow>
          (let band_sequence_v =
                 [upper (py_strip token). token \<leftarrow> py_split path_input, py_strip token \<noteq> []]
           in if length band_sequence_v < 2 then (Inl (ValueError Too_few_points), rest, [])
              else
                (case path_coordinates special_points band_sequence_v [] [] of
                   (Inl e, ev) \<Rightarrow> (Inl e, rest, ev)
                 | (Inr coordinates, ev) \<Rightarrow>
                     (let band_labels_v =
                            join '' '' (map (\<lambda>symbol. if symbol = ''G'' then gamma_label else symbol)
                                            band_sequence_v)
                      in (Inr (band_sequence_v, coordinates, band_labels_v), rest,
                          ev @ [(INFO, Helper_path band_sequence_v)])))))"

definition default_band_path :: "string list \<times> coord list \<times> string" where
  "default_band_path =
     ([''G'', ''M'', ''K'', ''G''],
      map (\<lambda>s. the (map_of fallback_points s)) [''G'', ''M'', ''K'', ''G''],
      default_band_labels)"

text \<open>
  \<open>determine_band_path\<close>. \<open>helper\<close> is the outcome of importing the crystallography
  helper and asking it for the special points of the cell: an exception or the table.
  Both \<open>except\<close> clauses fall through to the default path.
\<close>

definition determine_band_path ::
  "(error + (string \<times> coord) list) \<Rightarrow> string list
     \<Rightarrow> (string list \<times> coord list \<times> string) \<times> string list \<times> event list" where
  "determine_band_path helper inputs =
     (case (case helper of
              Inl e \<Rightarrow> (Inl e, inputs, [])
            | Inr special_points \<Rightarrow> helper_band_path special_points inputs) of
        (Inr result, rest, ev) \<Rightarrow> (result, rest, ev)
      | (Inl ModuleNotFoundError, rest, ev) \<Rightarrow>
          (default_band_path, rest, ev @ [(WARNING, Helper_missing), (INFO, Default_path)])
      | (Inl exc, rest, ev) \<Rightarrow>
          (default_band_path, rest, ev @ [(WARNING, Helper_failed exc), (INFO, Default_path)]))"

section \<open>Sample environments\<close>

text \<open>
  Instances of the parameters, for the concrete runs below: a file system in which
  every path that is asked for exists, and an external command that exits with code
  zero and leaves the working directory as it is.
\<close>

definition every_path_exists :: "string \<Rightarrow> bool" where
  "every_path_exists p = True"

definition idle_tool :: tool where
  "idle_tool command fs = (0, fs)"

text \<open>
  A configuration for post-processing with the prefix \<open>run\<close>, a log with both
  markers, and working directories: two work directories of which the first, or the
  second, has no log; two work directories of which the first has a log that may not
  be read and the second none; two converged work directories of which the second has an empty
  \<open>vasprun.xml\<close> (and the first an empty \<open>WAVECAR\<close>); and a single directory whose
  name is \<open>run-1\<close> followed by a line feed.
\<close>

definition sample_config :: WorkflowConfig where
  "sample_config =
     \<lparr>stage = ''post'', dims = [2, 2, 2], prefix = JStr ''run'',
      poscar_path = None, apply_symmetry = True,
      atom_name = JStr ''BO3'', band_points = 51,
      band_labels = JStr default_band_labels,
      band_sequence = [JStr ''G'', JStr ''M'', JStr ''K'', JStr ''G'']\<rparr>"

definition good_outcar :: content where
  "good_outcar = map Some ''aborting loop because EDIFF is reached\<newline>Voluntary''"

definition first_unconverged :: files where
  "first_unconverged =
     [(''POSCAR-unitcell'', File [Some CHR ''x'']),
      (''run-1'', Dir []),
      (''run-2'', Dir [(''OUTCAR'', Readable good_outcar)])]"

definition second_unconverged :: files where
  "second_unconverged =
     [(''POSCAR-unitcell'', File [Some CHR ''x'']),
      (''run-1'', Dir [(''OUTCAR'', Readable good_outcar)]),
      (''run-2'', Dir [])]"

definition first_unreadable :: files where
  "first_unreadable =
     [(''POSCAR-unitcell'', File [Some CHR ''x'']),
      (''run-1'', Dir [(''OUTCAR'', Unreadable good_outcar)]),
      (''run-2'', Dir [])]"

definition second_without_data :: files where
  "second_without_data =
     [(''POSCAR-unitcell'', File [Some CHR ''x'']),
      (''run-1'', Dir [(''OUTCAR'', Readable good_outcar), (''vasprun.xml'', Readable [Some CHR ''x'']),
                       (''WAVECAR'', Readable [])]),
      (''run-2'', Dir [(''OUTCAR'', Readable good_outcar), (''vasprun.xml'', Readable [])])]"

definition newline_folder :: files where
  "newline_folder =
     [(''POSCAR-unitcell'', File [Some CHR ''x'']),
      (''run-1'' @ [LF], Dir [])]"





section \<open>Facts about text\<close>

lemma startswith_iff: "startswith k s \<longleftrightarrow> (\<exists>q. s = k @ q)"
  by (induction k s rule: startswith.induct) auto

lemma str_in_iff: "str_in k s \<longleftrightarrow> (\<exists>p q. s = p @ k @ q)"
proof (induction s)
  case Nil
  then show ?case by auto
next
  case (Cons c cs)
  show ?case
  proof
    assume "str_in k (c # cs)"
    then consider "startswith k (c # cs)" | "str_in k cs" by auto
    then show "\<exists>p q. c # cs = p @ k @ q"
    proof cases
      case 1
      then obtain q where "c # cs = k @ q" unfolding startswith_iff by blast
      then have "c # cs = [] @ k @ q" by simp
      then show ?thesis by blast
    next
      case 2
      then obtain p q where "cs = p @ k @ q" using Cons.IH by blast
      then have "c # cs = (c # p) @ k @ q" by simp
      then show ?thesis by blast
    qed
  next
    assume "\<exists>p q. c # cs = p @ k @ q"
    then obtain p q where pq: "c # cs = p @ k @ q" by blast
    show "str_in k (c # cs)"
    proof (cases p)
      case Nil
      then have "startswith k (c # cs)" using pq unfolding startswith_iff by auto
      then show ?thesis by simp
    next
      case (Cons a p')
      then have "cs = p' @ k @ q" using pq by simp
      then show ?thesis using Cons.IH by auto
    qed
  qed
qed

text \<open>An occurrence of \<open>k\<close> cannot straddle a character that \<open>k\<close> does not contain.\<close>

lemma occurrence_beside:
  assumes "x \<notin> set k" "k \<noteq> []" "a @ x # b = p @ k @ q"
  shows "(\<exists>p' q'. a = p' @ k @ q') \<or> (\<exists>p' q'. b = p' @ k @ q')"
proof -
  from assms(3) have "a @ (x # b) = p @ (k @ q)" by simp
  then consider us where "a = p @ us" "us @ x # b = k @ q"
    | us where "a @ us = p" "x # b = us @ k @ q"
    by (auto simp: append_eq_append_conv2)
  then show ?thesis
  proof cases
    case 1
    from 1(2) consider vs where "us = k @ vs" | vs where "us @ vs = k" "x # b = vs @ q"
      by (auto simp: append_eq_append_conv2)
    then show ?thesis
    proof cases
      case 1
      then show ?thesis using \<open>a = p @ us\<close> by blast
    next
      case 2
      show ?thesis
      proof (cases vs)
        case Nil
        then have "a = p @ k @ []" using 2 \<open>a = p @ us\<close> by simp
        then show ?thesis by blast
      next
        case (Cons v vs')
        then have "x \<in> set k" using 2 by auto
        then show ?thesis using assms(1) by simp
      qed
    qed
  next
    case 2
    show ?thesis
    proof (cases us)
      case Nil
      then have "x # b = k @ q" using 2 by simp
      then have "x \<in> set k" using assms(2) by (cases k) auto
      then show ?thesis using assms(1) by simp
    next
      case (Cons u us')
      then have "b = us' @ k @ q" using 2 by simp
      then show ?thesis by blast
    qed
  qed
qed

lemma str_in_beside:
  assumes "x \<notin> set k" "k \<noteq> []"
  shows "str_in k (a @ x # b) \<longleftrightarrow> str_in k a \<or> str_in k b"
proof
  assume "str_in k (a @ x # b)"
  then obtain p q where "a @ x # b = p @ k @ q" unfolding str_in_iff by blast
  from occurrence_beside[OF assms this] show "str_in k a \<or> str_in k b"
    unfolding str_in_iff .
next
  assume "str_in k a \<or> str_in k b"
  then show "str_in k (a @ x # b)"
  proof
    assume "str_in k a"
    then obtain p q where "a = p @ k @ q" unfolding str_in_iff by blast
    then have "a @ x # b = p @ k @ (q @ x # b)" by simp
    then show ?thesis unfolding str_in_iff by blast
  next
    assume "str_in k b"
    then obtain p q where "b = p @ k @ q" unfolding str_in_iff by blast
    then have "a @ x # b = (a @ [x] @ p) @ k @ q" by simp
    then show ?thesis unfolding str_in_iff by blast
  qed
qed

lemma lines_of_marker:
  assumes "LF \<notin> set k" "k \<noteq> []"
  shows "(\<exists>l\<in>set (lines_of cur t). str_in k l) \<longleftrightarrow> str_in k (rev cur @ t)"
proof (induction t arbitrary: cur)
  case Nil
  then show ?case using assms(2) by auto
next
  case (Cons c cs)
  show ?case
  proof (cases "c = LF")
    case True
    have "str_in k (rev cur @ [LF]) \<longleftrightarrow> str_in k (rev cur)"
      using str_in_beside[OF assms, of "rev cur" "[]"] assms(2) by auto
    then show ?thesis
      using True Cons.IH[of "[]"] str_in_beside[OF assms, of "rev cur" cs] by auto
  next
    case False
    then show ?thesis using Cons.IH[of "c # cur"] by simp
  qed
qed

text \<open>A marker without a line end occurs in some line exactly when it occurs in the text.\<close>

lemma readlines_marker:
  assumes "LF \<notin> set k" "k \<noteq> []"
  shows "(\<exists>l\<in>set (readlines t). str_in k l) \<longleftrightarrow> str_in k (universal_newlines t)"
  unfolding readlines_def using lines_of_marker[OF assms, of "[]"] by simp

lemma keyword_converged_line: "LF \<notin> set keyword_converged \<and> keyword_converged \<noteq> []"
  by (simp add: keyword_converged_def LF_def)

lemma keyword_finished_line: "LF \<notin> set keyword_finished \<and> keyword_finished \<noteq> []"
  by (simp add: keyword_finished_def LF_def)

section \<open>The convergence check\<close>

lemma scan_flags:
  "scan_outcar ls c f n = (c', f', n') \<Longrightarrow>
     c' = (c \<or> (\<exists>l\<in>set ls. str_in keyword_converged l)) \<and>
     f' = (f \<or> (\<exists>l\<in>set ls. str_in keyword_finished l))"
proof (induction ls arbitrary: c f n)
  case Nil
  then show ?case by simp
next
  case (Cons l ls)
  show ?case
  proof (cases "(c \<or> str_in keyword_converged l) \<and> (f \<or> str_in keyword_finished l)")
    case True
    then show ?thesis using Cons.prems by (auto simp: Let_def split: if_splits)
  next
    case False
    then have "scan_outcar ls (c \<or> str_in keyword_converged l)
        (f \<or> str_in keyword_finished l) (Suc n) = (c', f', n')"
      using Cons.prems by (auto simp: Let_def split: if_splits)
    from Cons.IH[OF this] show ?thesis by auto
  qed
qed

lemma scan_count:
  assumes "scan_outcar ls c f n = (c', f', n')"
  shows "n \<le> n' \<and> n' \<le> n + length ls"
  using assms
proof (induction ls arbitrary: c f n)
  case Nil
  then show ?case by auto
next
  case (Cons l ls)
  show ?case
  proof (cases "(c \<or> str_in keyword_converged l) \<and> (f \<or> str_in keyword_finished l)")
    case True
    then have "n' = Suc n" using Cons.prems by (auto simp: Let_def split: if_splits)
    then show ?thesis by auto
  next
    case False
    then have *: "scan_outcar ls (c \<or> str_in keyword_converged l)
        (f \<or> str_in keyword_finished l) (Suc n) = (c', f', n')"
      using Cons.prems by (auto simp: Let_def split: if_splits)
    from Cons.IH[OF *] show ?thesis by auto
  qed
qed

lemma scan_all_read:
  assumes "scan_outcar ls c f n = (c', f', n')" "\<not> (c' \<and> f')"
  shows "n' = n + length ls"
  using assms
proof (induction ls arbitrary: c f n)
  case Nil
  then show ?case by auto
next
  case (Cons l ls)
  show ?case
  proof (cases "(c \<or> str_in keyword_converged l) \<and> (f \<or> str_in keyword_finished l)")
    case True
    then have "c' \<and> f'" using Cons.prems by (auto simp: Let_def split: if_splits)
    then show ?thesis using Cons.prems by simp
  next
    case False
    then have *: "scan_outcar ls (c \<or> str_in keyword_converged l)
        (f \<or> str_in keyword_finished l) (Suc n) = (c', f', n')"
      using Cons.prems by (auto simp: Let_def split: if_splits)
    from Cons.IH[OF * Cons.prems(2)] show ?thesis by auto
  qed
qed

lemma scan_stops:
  assumes "scan_outcar ls c f n = (c', f', n')" "c' \<and> f'" "\<not> (c \<and> f)"
  shows "n < n' \<and>
     (c \<or> (\<exists>l\<in>set (take (n' - n) ls). str_in keyword_converged l)) \<and>
     (f \<or> (\<exists>l\<in>set (take (n' - n) ls). str_in keyword_finished l)) \<and>
     (\<forall>k < n' - n. \<not> ((c \<or> (\<exists>l\<in>set (take k ls). str_in keyword_converged l)) \<and>
                      (f \<or> (\<exists>l\<in>set (take k ls). str_in keyword_finished l))))"
  using assms
proof (induction ls arbitrary: c f n)
  case Nil
  then show ?case by auto
next
  case (Cons l ls)
  show ?case
  proof (cases "(c \<or> str_in keyword_converged l) \<and> (f \<or> str_in keyword_finished l)")
    case True
    then have "n' = Suc n" using Cons.prems by (auto simp: Let_def split: if_splits)
    then show ?thesis using True Cons.prems(3) by auto
  next
    case False
    then have *: "scan_outcar ls (c \<or> str_in keyword_converged l)
        (f \<or> str_in keyword_finished l) (Suc n) = (c', f', n')"
      using Cons.prems by (auto simp: Let_def split: if_splits)
    note IH = Cons.IH[OF * Cons.prems(2) False]
    from IH have lt: "Suc n < n'" by simp
    then have e: "n' - n = Suc (n' - Suc n)" by simp
    have a: "c \<or> (\<exists>x\<in>set (take (n' - n) (l # ls)). str_in keyword_converged x)"
      using IH unfolding e by auto
    have b: "f \<or> (\<exists>x\<in>set (take (n' - n) (l # ls)). str_in keyword_finished x)"
      using IH unfolding e by auto
    have c: "\<not> ((c \<or> (\<exists>x\<in>set (take k (l # ls)). str_in keyword_converged x)) \<and>
              (f \<or> (\<exists>x\<in>set (take k (l # ls)). str_in keyword_finished x)))"
      if "k < n' - n" for k
    proof (cases k)
      case 0
      then show ?thesis using Cons.prems(3) by simp
    next
      case (Suc j)
      then have "j < n' - Suc n" using that by simp
      with IH have "\<not> (((c \<or> str_in keyword_converged l)
              \<or> (\<exists>x\<in>set (take j ls). str_in keyword_converged x)) \<and>
            ((f \<or> str_in keyword_finished l)
              \<or> (\<exists>x\<in>set (take j ls). str_in keyword_finished x)))"
        by blast
      then show ?thesis unfolding Suc by auto
    qed
    show ?thesis using lt a b c by auto
  qed
qed

lemma check_convergence_eq:
  assumes "child fs folder ''OUTCAR'' = Some c" "readable fs folder ''OUTCAR''"
  shows "check_convergence fs folder =
      (let cv = (\<exists>l\<in>set (outcar_lines c). str_in keyword_converged l);
           fn = (\<exists>l\<in>set (outcar_lines c). str_in keyword_finished l);
           r = Joined ((if cv then [] else [EDIFF_not_met]) @ (if fn then [] else [Not_finished]))
       in if cv \<and> fn then (Inr (), [(INFO, Convergence_passed folder)])
          else (Inl (RuntimeError (Unconverged folder r)), [(ERROR, Convergence_failed folder r)]))"
proof -
  obtain cv fn n where s: "scan_outcar (outcar_lines c) False False 0 = (cv, fn, n)"
    by (metis prod_cases3)
  from scan_flags[OF s] show ?thesis
    using assms s by (auto simp: check_convergence_def Let_def)
qed

lemma outcar_marker_text:
  "(\<exists>l\<in>set (outcar_lines c). str_in keyword_converged l) \<longleftrightarrow> str_in keyword_converged (outcar_text c)"
  "(\<exists>l\<in>set (outcar_lines c). str_in keyword_finished l) \<longleftrightarrow> str_in keyword_finished (outcar_text c)"
  unfolding outcar_lines_def outcar_text_def
  using readlines_marker[of keyword_converged] keyword_converged_line
        readlines_marker[of keyword_finished] keyword_finished_line by simp_all

lemma scan_outcar_early:
  "\<exists>cv fn n. scan_outcar ls False False 0 = (cv, fn, n) \<and> n \<le> length ls \<and>
     (if cv \<and> fn
      then (\<exists>l\<in>set (take n ls). str_in keyword_converged l) \<and>
           (\<exists>l\<in>set (take n ls). str_in keyword_finished l) \<and>
           (\<forall>k<n. \<not> ((\<exists>l\<in>set (take k ls). str_in keyword_converged l) \<and>
                      (\<exists>l\<in>set (take k ls). str_in keyword_finished l)))
      else n = length ls)"
proof -
  obtain cv fn n where s: "scan_outcar ls False False 0 = (cv, fn, n)"
    by (metis prod_cases3)
  have le: "n \<le> length ls" using scan_count[OF s] by simp
  show ?thesis
  proof (cases "cv \<and> fn")
    case True
    from scan_stops[OF s True] show ?thesis using s le True by auto
  next
    case False
    from scan_all_read[OF s False] show ?thesis using s False by auto
  qed
qed

text \<open>
  Claim C4. When the work directory has a log that can be read, the check succeeds
  exactly when the text of the log contains both markers, whatever their order: the
  outcome is the same for any two such logs with the same set of lines. When it fails, the error names the
  conditions that were not met (one of them or both). The scan reads no line after
  the first one at which both markers have been seen, and every line otherwise.
\<close>

theorem check_convergence_markers:
  assumes "child fs folder ''OUTCAR'' = Some c" "readable fs folder ''OUTCAR''"
  shows "(fst (check_convergence fs folder) = Inr () \<longleftrightarrow>
            str_in keyword_converged (outcar_text c) \<and> str_in keyword_finished (outcar_text c))
       \<and> (\<not> (str_in keyword_converged (outcar_text c) \<and> str_in keyword_finished (outcar_text c)) \<longrightarrow>
            fst (check_convergence fs folder) =
              Inl (RuntimeError (Unconverged folder (Joined
                ((if str_in keyword_converged (outcar_text c) then [] else [EDIFF_not_met])
                 @ (if str_in keyword_finished (outcar_text c) then [] else [Not_finished]))))))
       \<and> (\<forall>fs' c'. child fs' folder ''OUTCAR'' = Some c' \<and> readable fs' folder ''OUTCAR''
                  \<and> set (outcar_lines c') = set (outcar_lines c)
            \<longrightarrow> check_convergence fs' folder = check_convergence fs folder)
       \<and> (\<exists>cv fn n. scan_outcar (outcar_lines c) False False 0 = (cv, fn, n) \<and>
            n \<le> length (outcar_lines c) \<and>
            (if cv \<and> fn
             then (\<exists>l\<in>set (take n (outcar_lines c)). str_in keyword_converged l) \<and>
                  (\<exists>l\<in>set (take n (outcar_lines c)). str_in keyword_finished l) \<and>
                  (\<forall>k<n. \<not> ((\<exists>l\<in>set (take k (outcar_lines c)). str_in keyword_converged l) \<and>
                             (\<exists>l\<in>set (take k (outcar_lines c)). str_in keyword_finished l)))
             else n = length (outcar_lines c)))"
proof -
  note e = check_convergence_eq[OF assms]
  have 1: "fst (check_convergence fs folder) = Inr () \<longleftrightarrow>
            str_in keyword_converged (outcar_text c) \<and> str_in keyword_finished (outcar_text c)"
    unfolding e by (simp add: Let_def outcar_marker_text)
  have 2: "\<not> (str_in keyword_converged (outcar_text c) \<and> str_in keyword_finished (outcar_text c)) \<longrightarrow>
            fst (check_convergence fs folder) =
              Inl (RuntimeError (Unconverged folder (Joined
                ((if str_in keyword_converged (outcar_text c) then [] else [EDIFF_not_met])
                 @ (if str_in keyword_finished (outcar_text c) then [] else [Not_finished])))))"
    unfolding e by (simp add: Let_def outcar_marker_text)
  have 3: "\<forall>fs' c'. child fs' folder ''OUTCAR'' = Some c' \<and> readable fs' folder ''OUTCAR''
                  \<and> set (outcar_lines c') = set (outcar_lines c)
            \<longrightarrow> check_convergence fs' folder = check_convergence fs folder"
  proof (intro allI impI)
    fix fs' c'
    assume h: "child fs' folder ''OUTCAR'' = Some c' \<and> readable fs' folder ''OUTCAR''
                  \<and> set (outcar_lines c') = set (outcar_lines c)"
    then have h1: "child fs' folder ''OUTCAR'' = Some c'" and h2: "readable fs' folder ''OUTCAR''"
      and h3: "set (outcar_lines c') = set (outcar_lines c)" by simp_all
    show "check_convergence fs' folder = check_convergence fs folder"
      unfolding e check_convergence_eq[OF h1 h2] using h3 by simp
  qed
  from 1 2 3 scan_outcar_early[of "outcar_lines c"] show ?thesis by blast
qed

theorem check_convergence_markers_witness:
  "child [(''disp-001'', Dir [(''OUTCAR'', Readable
       (map Some ''Voluntary context switches\<newline> aborting loop because EDIFF is reached\<newline>tail''))])]
      ''disp-001'' ''OUTCAR''
     = Some (map Some ''Voluntary context switches\<newline> aborting loop because EDIFF is reached\<newline>tail'')
   \<and> readable [(''disp-001'', Dir [(''OUTCAR'', Readable
       (map Some ''Voluntary context switches\<newline> aborting loop because EDIFF is reached\<newline>tail''))])]
      ''disp-001'' ''OUTCAR''
   \<and> fst (check_convergence [(''disp-001'', Dir [(''OUTCAR'', Readable
       (map Some ''Voluntary context switches\<newline> aborting loop because EDIFF is reached\<newline>tail''))])]
      ''disp-001'') = Inr ()
   \<and> scan_outcar (outcar_lines
       (map Some ''Voluntary context switches\<newline> aborting loop because EDIFF is reached\<newline>tail''))
       False False 0 = (True, True, 2)"
  using check_convergence_markers[of
      "[(''disp-001'', Dir [(''OUTCAR'', Readable
         (map Some ''Voluntary context switches\<newline> aborting loop because EDIFF is reached\<newline>tail''))])]"
      "''disp-001''"
      "map Some ''Voluntary context switches\<newline> aborting loop because EDIFF is reached\<newline>tail''"]
  by (simp add: check_convergence_def child_def readable_def outcar_lines_def readlines_def decode_ignore_def
      List.map_filter_simps keyword_converged_def keyword_finished_def LF_def CR_def)

section \<open>The configuration store\<close>

lemma int_all_JInt: "int_all (map JInt ds) = Inr ds"
  by (induction ds) (auto simp: py_int_def)

text \<open>
  Claim C5. Saving a configuration and loading the record, with any stage, succeeds and
  yields a configuration with the caller's stage and the saved supercell dimensions,
  folder prefix, symmetry flag and band fields.
\<close>

theorem save_load_roundtrip:
  "\<exists>c'. load_config_snapshot expanduser stage_v (save_config_snapshot c store) = Inr c'
      \<and> stage c' = stage_v
      \<and> dims c' = dims c
      \<and> prefix c' = prefix c
      \<and> apply_symmetry c' = apply_symmetry c
      \<and> band_points c' = band_points c
      \<and> band_labels c' = band_labels c
      \<and> band_sequence c' = band_sequence c"
  by (cases "poscar_path c")
     (auto simp: load_config_snapshot_def save_config_snapshot_def snapshot_data_def
        snapshot_fields_def dict_get_def int_all_JInt py_iter_def py_int_def py_bool_def)

lemma int_parts_length: "int_parts ps = Some vs \<Longrightarrow> length vs = length ps"
  by (induction ps arbitrary: vs) (auto split: option.splits)

lemma prompt_int_list_length:
  "prompt_int_list count dflt inputs = (Inr vs, rest) \<Longrightarrow> length vs = count"
proof (induction count dflt inputs rule: prompt_int_list.induct)
  case (1 count dflt inputs)
  show ?case
  proof (cases "prompt_user (Some (join '' '' (map str_int dflt))) inputs")
    case (Pair r rest')
    show ?thesis
    proof (cases r)
      case (Inl e)
      then show ?thesis using 1(3) Pair by (simp add: prompt_int_list.simps[of count dflt inputs])
    next
      case (Inr response)
      show ?thesis
      proof (cases "length (py_split response) = count")
        case False
        then have "prompt_int_list count dflt rest' = (Inr vs, rest)"
          using 1(3) Pair Inr by (simp add: prompt_int_list.simps[of count dflt inputs])
        from 1(1)[OF Pair[symmetric] Inr refl False this] show ?thesis .
      next
        case True
        show ?thesis
        proof (cases "int_parts (py_split response)")
          case None
          then have again: "prompt_int_list count dflt rest' = (Inr vs, rest)"
            using 1(3) Pair Inr True by (simp add: prompt_int_list.simps[of count dflt inputs])
          from 1(2)[OF Pair[symmetric] Inr refl _ None again] True show ?thesis by simp
        next
          case (Some vals)
          then have "vs = vals"
            using 1(3) Pair Inr True by (simp add: prompt_int_list.simps[of count dflt inputs])
          then show ?thesis using int_parts_length[OF Some] True by simp
        qed
      qed
    qed
  qed
qed

lemma load_dims:
  assumes "load_config_snapshot expanduser stage_v store = Inr c"
  shows "\<exists>kv dv vs. store = Some (Parsed (JObj kv)) \<and> map_of kv ''dims'' = Some dv
           \<and> py_iter dv = Inr vs \<and> int_all vs = Inr (dims c)"
  using assms
  by (auto simp: load_config_snapshot_def snapshot_fields_def
      split: option.splits snapshot.splits json.splits sum.splits if_splits prod.splits)

lemma collect_interactive_dims:
  assumes "fst (collect_configuration path_exists resolve expanduser stage_v inputs store) = Inr c"
      and "stage_v \<noteq> ''post''"
  shows "length (dims c) = 3"
  using assms
  by (auto simp: collect_configuration_def Let_def
      split: prod.splits sum.splits dest: prompt_int_list_length)

lemma load_saved_dims:
  "\<exists>c'. load_config_snapshot expanduser stage_v (save_config_snapshot c store) = Inr c'
      \<and> dims c' = dims c"
  by (cases "poscar_path c")
     (auto simp: load_config_snapshot_def save_config_snapshot_def snapshot_data_def
        snapshot_fields_def dict_get_def int_all_JInt py_iter_def py_int_def py_bool_def)

lemma collect_interactive_store:
  assumes "collect_configuration path_exists resolve expanduser stage_v inputs store = (Inr c, rest, store')"
      and "stage_v \<noteq> ''post''"
  shows "store' = save_config_snapshot c store"
  using assms
  by (auto simp: collect_configuration_def Let_def split: prod.splits sum.splits)

text \<open>
  Claim C7, as the code has it. A configuration gathered interactively has exactly
  three supercell dimensions, which are integers of any sign, and the record that this
  run leaves loads, in a later post-processing run, to a configuration with the same
  three dimensions. A configuration loaded from a record that the program saved from a
  configuration with three dimensions has those three dimensions.
\<close>

theorem collect_configuration_dims:
  assumes "collect_configuration path_exists resolve expanduser stage_v inputs store = (Inr c, rest, store')"
  shows "(stage_v \<noteq> ''post'' \<longrightarrow>
            length (dims c) = 3
            \<and> (\<exists>c'. fst (collect_configuration path_exists' resolve' expanduser' ''post'' inputs' store')
                        = Inr c'
                  \<and> dims c' = dims c \<and> length (dims c') = 3))
       \<and> (\<forall>c0 store0. stage_v = ''post'' \<and> store = save_config_snapshot c0 store0
                \<and> length (dims c0) = 3 \<longrightarrow>
            dims c = dims c0 \<and> length (dims c) = 3)"
proof -
  have f: "fst (collect_configuration path_exists resolve expanduser stage_v inputs store) = Inr c"
    using assms by simp
  have a: "length (dims c) = 3
            \<and> (\<exists>c'. fst (collect_configuration path_exists' resolve' expanduser' ''post'' inputs' store')
                        = Inr c'
                  \<and> dims c' = dims c \<and> length (dims c') = 3)" if pre: "stage_v \<noteq> ''post''"
  proof -
    have l: "length (dims c) = 3" using collect_interactive_dims[OF f pre] .
    have s: "store' = save_config_snapshot c store" using collect_interactive_store[OF assms pre] .
    obtain c' where "load_config_snapshot expanduser' ''post'' (save_config_snapshot c store) = Inr c'"
      and "dims c' = dims c"
      using load_saved_dims[of expanduser' "''post''" c store] by blast
    then have "fst (collect_configuration path_exists' resolve' expanduser' ''post'' inputs' store') = Inr c'
        \<and> dims c' = dims c \<and> length (dims c') = 3"
      using l s by (simp add: collect_configuration_def)
    with l show ?thesis by blast
  qed
  have b: "dims c = dims c0 \<and> length (dims c) = 3"
    if post: "stage_v = ''post''" and st: "store = save_config_snapshot c0 store0"
      and l0: "length (dims c0) = 3" for c0 store0
  proof -
    have "load_config_snapshot expanduser ''post'' (save_config_snapshot c0 store0) = Inr c"
      using f post st by (simp add: collect_configuration_def)
    then have "dims c = dims c0"
      using load_saved_dims[of expanduser "''post''" c0 store0] by auto
    then show ?thesis using l0 by simp
  qed
  from a b show ?thesis by blast
qed

theorem collect_configuration_dims_witness:
  "collect_configuration every_path_exists id id ''full'' [''POSCAR'', ''n'', ''2 2 1'', ''run''] None
      = (Inr \<lparr>stage = ''full'', dims = [2, 2, 1], prefix = JStr ''run'',
               poscar_path = Some ''POSCAR'', apply_symmetry = False,
               atom_name = JStr ''BO3'', band_points = 51,
               band_labels = JStr default_band_labels,
               band_sequence = [JStr ''G'', JStr ''M'', JStr ''K'', JStr ''G'']\<rparr>,
         [],
         save_config_snapshot
            \<lparr>stage = ''full'', dims = [2, 2, 1], prefix = JStr ''run'',
               poscar_path = Some ''POSCAR'', apply_symmetry = False,
               atom_name = JStr ''BO3'', band_points = 51,
               band_labels = JStr default_band_labels,
               band_sequence = [JStr ''G'', JStr ''M'', JStr ''K'', JStr ''G'']\<rparr> None)
   \<and> ''full'' \<noteq> ''post''
   \<and> (\<exists>c'. fst (collect_configuration every_path_exists id id ''post'' []
                 (save_config_snapshot
                    \<lparr>stage = ''full'', dims = [2, 2, 1], prefix = JStr ''run'',
                       poscar_path = Some ''POSCAR'', apply_symmetry = False,
                       atom_name = JStr ''BO3'', band_points = 51,
                       band_labels = JStr default_band_labels,
                       band_sequence = [JStr ''G'', JStr ''M'', JStr ''K'', JStr ''G'']\<rparr> None)) = Inr c'
          \<and> dims c' = [2, 2, 1] \<and> length (dims c') = 3)"
proof -
  define cfg where "cfg = \<lparr>stage = ''full'', dims = [2, 2, 1], prefix = JStr ''run'',
               poscar_path = Some ''POSCAR'', apply_symmetry = False,
               atom_name = JStr ''BO3'', band_points = 51,
               band_labels = JStr default_band_labels,
               band_sequence = [JStr ''G'', JStr ''M'', JStr ''K'', JStr ''G'']\<rparr>"
  have run: "collect_configuration every_path_exists id id ''full''
                [''POSCAR'', ''n'', ''2 2 1'', ''run''] None
              = (Inr cfg, [], save_config_snapshot cfg None)"
    unfolding cfg_def
    by (simp add: collect_configuration_def prompt_poscar.simps prompt_yes_no.simps
        prompt_int_list.simps every_path_exists_def py_strip_def isspace_def lower_def lower_char_def
        py_split_def int_of_str_def isdigit_char_def digit_val_def Let_def)
  have ne: "''full'' \<noteq> ''post''" by simp
  have d: "dims cfg = [2, 2, 1]" by (simp add: cfg_def)
  from collect_configuration_dims[OF run, of every_path_exists id id "[]"] ne
  have "\<exists>c'. fst (collect_configuration every_path_exists id id ''post'' []
                 (save_config_snapshot cfg None)) = Inr c'
          \<and> dims c' = dims cfg \<and> length (dims c') = 3"
    by blast
  then have "\<exists>c'. fst (collect_configuration every_path_exists id id ''post'' []
                 (save_config_snapshot cfg None)) = Inr c'
          \<and> dims c' = [2, 2, 1] \<and> length (dims c') = 3"
    unfolding d .
  with run ne show ?thesis unfolding cfg_def by blast
qed

text \<open>
  The claim as stated fails: the operator's answer \<open>0 -1 5\<close> is accepted as the
  dimensions, and the record that this run leaves loads with the same dimensions.
\<close>

theorem supercell_dims_counterexample:
  "fst (collect_configuration every_path_exists id id ''pre''
           [''POSCAR'', ''y'', ''0 -1 5'', ''run''] None)
      = Inr \<lparr>stage = ''pre'', dims = [0, - 1, 5], prefix = JStr ''run'',
              poscar_path = Some ''POSCAR'', apply_symmetry = True,
              atom_name = JStr ''BO3'', band_points = 51,
              band_labels = JStr default_band_labels,
              band_sequence = [JStr ''G'', JStr ''M'', JStr ''K'', JStr ''G'']\<rparr>
   \<and> fst (collect_configuration every_path_exists id id ''post'' []
           (snd (snd (collect_configuration every_path_exists id id ''pre''
                        [''POSCAR'', ''y'', ''0 -1 5'', ''run''] None))))
      = Inr \<lparr>stage = ''post'', dims = [0, - 1, 5], prefix = JStr ''run'',
              poscar_path = Some ''POSCAR'', apply_symmetry = True,
              atom_name = JStr ''BO3'', band_points = 51,
              band_labels = JStr default_band_labels,
              band_sequence = [JStr ''G'', JStr ''M'', JStr ''K'', JStr ''G'']\<rparr>"
  by (simp add: collect_configuration_def prompt_poscar.simps prompt_yes_no.simps
      prompt_int_list.simps every_path_exists_def py_strip_def isspace_def lower_def lower_char_def
      py_split_def int_of_str_def isdigit_char_def digit_val_def Let_def
      load_config_snapshot_def save_config_snapshot_def snapshot_data_def
      snapshot_fields_def py_iter_def py_int_def py_bool_def dict_get_def)

section \<open>The atom composition\<close>

lemma words_of_nospace:
  "\<forall>c\<in>set cur. \<not> isspace c \<Longrightarrow> w \<in> set (words_of cur s) \<Longrightarrow> \<forall>c\<in>set w. \<not> isspace c"
proof (induction cur s rule: words_of.induct)
  case (1 cur)
  then show ?case by (simp split: if_splits)
next
  case (2 cur c cs)
  show ?case
  proof (cases "isspace c")
    case True
    show ?thesis
    proof (cases "cur = []")
      case e: True
      from "2.prems"(2) True e have "w \<in> set (words_of [] cs)" by simp
      from "2.IH"(1)[OF True e _ this] show ?thesis by simp
    next
      case e: False
      from "2.prems"(2) True e have "w = rev cur \<or> w \<in> set (words_of [] cs)" by simp
      then show ?thesis
      proof
        assume "w = rev cur"
        then show ?thesis using "2.prems"(1) by simp
      next
        assume "w \<in> set (words_of [] cs)"
        from "2.IH"(2)[OF True e _ this] show ?thesis by simp
      qed
    qed
  next
    case False
    from "2.prems"(2) False have in_rest: "w \<in> set (words_of (c # cur) cs)" by simp
    have "\<forall>x\<in>set (c # cur). \<not> isspace x" using False "2.prems"(1) by simp
    from "2.IH"(3)[OF False this in_rest] show ?thesis .
  qed
qed


lemma py_split_nospace: "w \<in> set (py_split s) \<Longrightarrow> \<forall>c\<in>set w. \<not> isspace c"
  unfolding py_split_def using words_of_nospace[of "[]" w s] by simp

lemma read_atom_name_value:
  "fst (read_atom_name_from_poscar fs p) =
     (case map_of fs p of
        Some (File c) \<Rightarrow>
          if None \<notin> set c \<and> 6 \<le> length (readlines (map the c))
          then concat (py_split (py_strip (readlines (map the c) ! 5)))
          else ''BO3''
      | _ \<Rightarrow> ''BO3'')"
  by (simp add: read_atom_name_from_poscar_def read_elements_def decode_strict_def Let_def
      split: option.splits node.splits)

lemma read_atom_name_nospace:
  "\<forall>ch\<in>set (fst (read_atom_name_from_poscar fs p)). \<not> isspace ch"
proof -
  have 2: "\<forall>ch\<in>set (concat (py_split s)). \<not> isspace ch" for s
    using py_split_nospace by auto
  have 3: "\<forall>ch\<in>set ''BO3''. \<not> isspace ch" by (simp add: isspace_def)
  show ?thesis
  proof (cases "read_elements fs p")
    case (Inl e)
    then show ?thesis using 3 by (simp add: read_atom_name_from_poscar_def)
  next
    case (Inr name)
    then obtain s where "name = concat (py_split s)"
      by (auto simp: read_elements_def Let_def split: option.splits node.splits sum.splits if_splits)
    then show ?thesis using Inr 2 by (simp add: read_atom_name_from_poscar_def)
  qed
qed

text \<open>
  Claim C10. \<open>read_atom_name_from_poscar\<close> returns a string for every working
  directory and path: the concatenation of the tokens of line 6 when the path is a
  regular file that decodes and has at least six lines, and \<open>BO3\<close> in every other
  case (no such file, a directory, undecodable content, fewer than six lines). The
  function has no error result: every exception of its body is turned into the
  default. The string it returns holds no white space.
\<close>

theorem read_atom_name_total:
  "fst (read_atom_name_from_poscar fs p) =
     (case map_of fs p of
        Some (File c) \<Rightarrow>
          if None \<notin> set c \<and> 6 \<le> length (readlines (map the c))
          then concat (py_split (py_strip (readlines (map the c) ! 5)))
          else ''BO3''
      | _ \<Rightarrow> ''BO3'')
   \<and> (\<forall>ch\<in>set (fst (read_atom_name_from_poscar fs p)). \<not> isspace ch)"
  using read_atom_name_value[of fs p] read_atom_name_nospace[of fs p] by (rule conjI)

theorem read_atom_name_total_witness:
  "fst (read_atom_name_from_poscar
        [(''POSCAR-unitcell'', File (map Some ''x\<newline>1\<newline>a\<newline>b\<newline>c\<newline> B  O \<newline>1 3\<newline>''))]
        ''POSCAR-unitcell'') = ''BO''
   \<and> fst (read_atom_name_from_poscar [] ''POSCAR-unitcell'') = ''BO3''
   \<and> fst (read_atom_name_from_poscar [(''POSCAR-unitcell'', File [Some CHR ''x'', None])]
        ''POSCAR-unitcell'') = ''BO3''"
  using read_atom_name_total[of
        "[(''POSCAR-unitcell'', File (map Some ''x\<newline>1\<newline>a\<newline>b\<newline>c\<newline> B  O \<newline>1 3\<newline>''))]"
        "''POSCAR-unitcell''"]
  by (simp add: read_atom_name_from_poscar_def read_elements_def decode_strict_def
      readlines_def LF_def CR_def py_strip_def py_split_def isspace_def Let_def)

section \<open>The band path\<close>

text \<open>
  Claim C3, at an input where the code departs from it. The helper knows the points
  Gamma, M and K and the operator enters \<open>G X\<close>. \<open>RuntimeError\<close> is raised for the
  label \<open>X\<close>, inside the \<open>try\<close> whose \<open>except Exception\<close> then catches it: the
  function returns the default path and raises nothing.
\<close>

theorem determine_band_path_unknown_label:
  "determine_band_path
       (Inr [(Gamma_symbol, (0, 0, 0)), (''M'', (1 / 2, 0, 0)), (''K'', (1 / 3, 1 / 3, 0))])
       [''G X'']
    = (([''G'', ''M'', ''K'', ''G''],
        [(0, 0, 0), (1 / 2, 0, 0), (1 / 3, - (1 / 3), 0), (0, 0, 0)],
        default_band_labels),
       [],
       [(WARNING, Point_not_found ''X''),
        (WARNING, Helper_failed (RuntimeError (Unknown_point ''X''))),
        (INFO, Default_path)])"
  by (simp add: determine_band_path_def helper_band_path_def Gamma_symbol_def default_band_path_def
      fallback_points_def py_strip_def py_split_def isspace_def upper_def upper_char_def Let_def)

section \<open>The displacement generator\<close>

text \<open>
  Claim C2, at an input where the code departs from it. The working directory holds
  \<open>POSCAR\<close> and \<open>POSCAR-unitcell\<close>, as it does when pre-processing reaches
  \<open>run_displacements\<close>, and the external command exits with code zero without
  writing a file. \<open>POSCAR-unitcell\<close> matches \<open>POSCAR-*\<close>, so the list of files is
  not empty: nothing is raised, the file is skipped and no work directory is made.
\<close>

theorem run_displacements_unitcell_only:
  "run_displacements idle_tool
      \<lparr>stage = ''pre'', dims = [2, 2, 2], prefix = JStr ''run'',
        poscar_path = Some ''POSCAR'', apply_symmetry = True,
        atom_name = JStr ''BO3'', band_points = 51,
        band_labels = JStr default_band_labels,
        band_sequence = [JStr ''G'', JStr ''M'', JStr ''K'', JStr ''G'']\<rparr>
      ''POSCAR-unitcell''
      [(''POSCAR'', File [Some CHR ''x'']), (''POSCAR-unitcell'', File [Some CHR ''x''])]
    = (Inr (),
       [(''POSCAR'', File [Some CHR ''x'']), (''POSCAR-unitcell'', File [Some CHR ''x''])],
       [(INFO, Skipped_file ''POSCAR-unitcell'')])"
  by (simp add: run_displacements_def run_command_def idle_tool_def poscar_files_def listing_def
      is_file_def relocate_one_def isdigit_def isdigit_char_def Let_def)



























section \<open>Post-processing: validation and aggregation\<close>

text \<open>
  A check whose log, when there is one, can be read fails with a \<open>RuntimeError\<close> only;
  a log that is there and cannot be read makes it fail with the error of \<open>open\<close>.
\<close>

lemma check_convergence_runtime:
  assumes "child fs f ''OUTCAR'' \<noteq> None \<longrightarrow> readable fs f ''OUTCAR''"
      and "fst (check_convergence fs f) = Inl e"
  shows "\<exists>m. e = RuntimeError m"
  using assms
  by (auto simp: check_convergence_def Let_def split: option.splits prod.splits if_splits)

lemma check_convergence_unreadable:
  assumes "child fs f ''OUTCAR'' \<noteq> None" "\<not> readable fs f ''OUTCAR''"
  shows "check_convergence fs f = (Inl (PermissionError (f @ ''/OUTCAR'')), [])"
  using assms by (auto simp: check_convergence_def)

lemma check_convergence_passed_readable:
  assumes "fst (check_convergence fs f) = Inr ()"
  shows "child fs f ''OUTCAR'' \<noteq> None \<longrightarrow> readable fs f ''OUTCAR''"
  using assms by (auto simp: check_convergence_def split: option.splits if_splits)

text \<open>
  The loop over work directories whose logs can be read: every directory is checked,
  and the failed ones are collected in order.
\<close>

lemma convergence_loop_eq:
  assumes "\<forall>f\<in>set folders. child fs f ''OUTCAR'' \<noteq> None \<longrightarrow> readable fs f ''OUTCAR''"
  shows "convergence_loop fs folders u ev =
     (Inr (u @ [f \<leftarrow> folders. fst (check_convergence fs f) \<noteq> Inr ()]),
      ev @ concat (map (\<lambda>f. snd (check_convergence fs f)
                          @ (if fst (check_convergence fs f) = Inr () then []
                             else [(ERROR, Check_failed f)])) folders))"
  using assms
proof (induction folders arbitrary: u ev)
  case Nil
  then show ?case by simp
next
  case (Cons f folders)
  obtain r e' where c: "check_convergence fs f = (r, e')" by (cases "check_convergence fs f")
  have rest: "\<forall>f\<in>set folders. child fs f ''OUTCAR'' \<noteq> None \<longrightarrow> readable fs f ''OUTCAR''"
    using Cons.prems by simp
  have this_one: "child fs f ''OUTCAR'' \<noteq> None \<longrightarrow> readable fs f ''OUTCAR''"
    using Cons.prems by simp
  show ?case
  proof (cases r)
    case (Inr x)
    then show ?thesis using c Cons.IH[OF rest, of u "ev @ e'"] by simp
  next
    case (Inl e)
    then obtain m where "e = RuntimeError m"
      using check_convergence_runtime[OF this_one, of e] c by auto
    then show ?thesis
      using c Inl Cons.IH[OF rest, of "u @ [f]" "ev @ e' @ [(ERROR, Check_failed f)]"] by simp
  qed
qed

text \<open>
  The loop leaves at the first work directory whose log is there and cannot be read:
  the error of \<open>open\<close> is not a \<open>RuntimeError\<close>, and the directories after it are not
  checked.
\<close>

lemma convergence_loop_stops:
  assumes "\<forall>g\<in>set before. child fs g ''OUTCAR'' \<noteq> None \<longrightarrow> readable fs g ''OUTCAR''"
      and "child fs f ''OUTCAR'' \<noteq> None" "\<not> readable fs f ''OUTCAR''"
  shows "convergence_loop fs (before @ f # after) u ev =
     (Inl (PermissionError (f @ ''/OUTCAR'')),
      ev @ concat (map (\<lambda>g. snd (check_convergence fs g)
                          @ (if fst (check_convergence fs g) = Inr () then []
                             else [(ERROR, Check_failed g)])) before))"
  using assms(1)
proof (induction before arbitrary: u ev)
  case Nil
  show ?case using check_convergence_unreadable[OF assms(2,3)] by simp
next
  case (Cons g before)
  obtain r e' where c: "check_convergence fs g = (r, e')" by (cases "check_convergence fs g")
  have rest: "\<forall>g\<in>set before. child fs g ''OUTCAR'' \<noteq> None \<longrightarrow> readable fs g ''OUTCAR''"
    using Cons.prems by simp
  have this_one: "child fs g ''OUTCAR'' \<noteq> None \<longrightarrow> readable fs g ''OUTCAR''"
    using Cons.prems by simp
  show ?case
  proof (cases r)
    case (Inr x)
    then show ?thesis using c Cons.IH[OF rest, of u "ev @ e'"] by simp
  next
    case (Inl e)
    then obtain m where "e = RuntimeError m"
      using check_convergence_runtime[OF this_one, of e] c by auto
    then show ?thesis
      using c Inl Cons.IH[OF rest, of "u @ [g]" "ev @ e' @ [(ERROR, Check_failed g)]"] by simp
  qed
qed

lemma find_dispersion_folders_none:
  assumes "\<forall>n. \<not> (is_dir fs n \<and> dispersion_pattern_match pre n)"
  shows "find_dispersion_folders fnmatch pre fs = Inl (RuntimeError (No_dispersion_folders pre))"
  using assms by (simp add: find_dispersion_folders_def Let_def filter_empty_conv)

lemma find_dispersion_folders_sound:
  assumes "find_dispersion_folders fnmatch pre fs = Inr folders"
  shows "folders \<noteq> [] \<and> distinct folders
       \<and> (\<forall>f\<in>set folders. is_dir fs f \<and> dispersion_pattern_match pre f)"
  using assms
  by (auto simp: find_dispersion_folders_def Let_def listing_def split: if_splits)

text \<open>
  With the pattern as the code has it: when no directory of the working directory has a
  name that the pattern matches, post-processing raises right after the check of the
  unit cell, with the working directory as it was and nothing logged: no convergence
  check, no cleaning and no aggregation has run.
\<close>

lemma run_postprocessing_no_folders:
  assumes "\<forall>n. \<not> (is_dir fs n \<and> dispersion_pattern_match pre n)" "prefix config = JStr pre"
  shows "run_postprocessing fnmatch tool config fs =
           ((if map_of fs ''POSCAR-unitcell'' = None then Inl (FileNotFoundError Missing_unitcell)
             else Inl (RuntimeError (No_dispersion_folders pre))), fs, [])"
  using find_dispersion_folders_none[OF assms(1)] assms(2)
  by (simp add: run_postprocessing_def)

lemma check_convergence_pass_event:
  "fst (check_convergence fs f) = Inr () \<Longrightarrow> snd (check_convergence fs f) = [(INFO, Convergence_passed f)]"
  by (auto simp: check_convergence_def Let_def split: option.splits prod.splits if_splits)

lemma map_of_filter_keys:
  "map_of [(n, c) \<leftarrow> al. P n] k = (if P k then map_of al k else None)"
  by (induction al) auto

lemma map_of_nonempty_children:
  "map_of [(n, e) \<leftarrow> d. map_option bytes (map_of d n) \<noteq> Some []] k
     = (if map_option bytes (map_of d k) = Some [] then None else map_of d k)"
  using map_of_filter_keys[of "\<lambda>n. map_option bytes (map_of d n) \<noteq> Some []" d k] by auto

lemma clean_empty_files_dir:
  assumes "map_of fs f = Some (Dir d)"
  shows "\<exists>fs' ev. clean_empty_files fs f = (Inr (), fs', ev)
      \<and> (\<forall>g k. child fs' g k = (if g = f \<and> child fs g k = Some [] then None else child fs g k))
      \<and> (\<forall>x. x \<noteq> f \<longrightarrow> map_of fs' x = map_of fs x)
      \<and> (\<forall>x. is_dir fs' x = is_dir fs x)"
proof -
  define d' where "d' = [(n, e) \<leftarrow> d. map_option bytes (map_of d n) \<noteq> Some []]"
  have m: "map_of d' k = (if map_option bytes (map_of d k) = Some [] then None else map_of d k)" for k
    unfolding d'_def by (rule map_of_nonempty_children)
  have "\<exists>ev. clean_empty_files fs f = (Inr (), AList.update f (Dir d') fs, ev)"
    using assms by (simp add: clean_empty_files_def Let_def d'_def)
  moreover have "child (AList.update f (Dir d') fs) g k
      = (if g = f \<and> child fs g k = Some [] then None else child fs g k)" for g k
    using assms by (auto simp: child_def update_conv' m)
  moreover have "x \<noteq> f \<longrightarrow> map_of (AList.update f (Dir d') fs) x = map_of fs x" for x
    by (simp add: update_conv')
  moreover have "is_dir (AList.update f (Dir d') fs) x = is_dir fs x" for x
    using assms by (simp add: is_dir_def update_conv')
  ultimately show ?thesis by blast
qed

lemma clean_folders_dirs:
  assumes "\<forall>f\<in>set folders. is_dir fs f"
  shows "\<exists>fs' more. clean_folders fs folders ev = (Inr (), fs', ev @ more)
      \<and> (\<forall>g k. child fs' g k = (if g \<in> set folders \<and> child fs g k = Some [] then None else child fs g k))
      \<and> (\<forall>x. x \<notin> set folders \<longrightarrow> map_of fs' x = map_of fs x)
      \<and> (\<forall>x. is_dir fs' x = is_dir fs x)"
  using assms
proof (induction folders arbitrary: fs ev)
  case Nil
  then show ?case by simp
next
  case (Cons f folders)
  from Cons.prems obtain d where d: "map_of fs f = Some (Dir d)"
    by (auto simp: is_dir_def split: option.splits node.splits)
  from clean_empty_files_dir[OF d] obtain fs1 ev1 where
    s: "clean_empty_files fs f = (Inr (), fs1, ev1)"
    and c1: "\<forall>g k. child fs1 g k = (if g = f \<and> child fs g k = Some [] then None else child fs g k)"
    and m1: "\<forall>x. x \<noteq> f \<longrightarrow> map_of fs1 x = map_of fs x"
    and d1: "\<forall>x. is_dir fs1 x = is_dir fs x"
    by blast
  have "\<forall>g\<in>set folders. is_dir fs1 g" using Cons.prems d1 by simp
  from Cons.IH[OF this, of "ev @ ev1"] obtain fs' more where
    r: "clean_folders fs1 folders (ev @ ev1) = (Inr (), fs', (ev @ ev1) @ more)"
    and c2: "\<forall>g k. child fs' g k = (if g \<in> set folders \<and> child fs1 g k = Some [] then None else child fs1 g k)"
    and m2: "\<forall>x. x \<notin> set folders \<longrightarrow> map_of fs' x = map_of fs1 x"
    and d2: "\<forall>x. is_dir fs' x = is_dir fs1 x"
    by blast
  have 1: "clean_folders fs (f # folders) ev = (Inr (), fs', ev @ (ev1 @ more))"
    using s r by simp
  have 2: "\<forall>g k. child fs' g k = (if g \<in> set (f # folders) \<and> child fs g k = Some [] then None else child fs g k)"
    using c1 c2 by auto
  have 3: "\<forall>x. x \<notin> set (f # folders) \<longrightarrow> map_of fs' x = map_of fs x"
    using m1 m2 by auto
  have 4: "\<forall>x. is_dir fs' x = is_dir fs x" using d1 d2 by simp
  from 1 2 3 4 show ?case by blast
qed

lemma collect_vasprun_paths_eq:
  assumes "\<forall>f\<in>set folders. child fs f ''vasprun.xml'' \<noteq> Some []"
  shows "collect_vasprun_paths fs folders =
           (case [f \<leftarrow> folders. child fs f ''vasprun.xml'' = None] of
              [] \<Rightarrow> Inr (map (\<lambda>f. f @ ''/vasprun.xml'') folders)
            | f0 # rest \<Rightarrow> Inl (RuntimeError (Missing_vasprun f0)))"
  using assms
  by (induction folders) (auto split: option.splits list.splits)

lemma run_postprocessing_after_loop:
  assumes "map_of fs ''POSCAR-unitcell'' \<noteq> None" "prefix config = JStr pre"
      and "find_dispersion_folders fnmatch pre fs = Inr folders"
      and "\<forall>f\<in>set folders. child fs f ''OUTCAR'' \<noteq> None \<longrightarrow> readable fs f ''OUTCAR''"
  shows "run_postprocessing fnmatch tool config fs =
     (let failing = [f \<leftarrow> folders. fst (check_convergence fs f) \<noteq> Inr ()];
          ev = [(INFO, Found_folders (length folders))]
               @ concat (map (\<lambda>f. snd (check_convergence fs f)
                          @ (if fst (check_convergence fs f) = Inr () then []
                             else [(ERROR, Check_failed f)])) folders)
      in if failing \<noteq> [] then
           (Inl (RuntimeError (Unconverged_batch (length failing))), fs, ev @ unconverged_report failing)
         else
           (case clean_folders fs folders (ev @ [(INFO, All_converged)]) of
              (Inl e, fs1, ev1) \<Rightarrow> (Inl e, fs1, ev1)
            | (Inr u, fs1, ev1) \<Rightarrow>
                (case collect_vasprun_paths fs1 folders of
                   Inl e \<Rightarrow> (Inl e, fs1, ev1)
                 | Inr vasprun_paths \<Rightarrow>
                     (case run_command tool ([''phonopy'', ''-f''] @ vasprun_paths) fs1 of
                        (r, fs2) \<Rightarrow> (r, fs2, ev1)))))"
proof -
  obtain y where "map_of fs ''POSCAR-unitcell'' = Some y" using assms(1) by auto
  then show ?thesis
    using assms(2,3)
    by (simp add: run_postprocessing_def convergence_loop_eq[OF assms(4), of "[]", simplified] Let_def)
qed

lemma collect_vasprun_paths_errors:
  "collect_vasprun_paths fs folders = Inl e \<Longrightarrow>
     \<exists>f. e = RuntimeError (Missing_vasprun f) \<or> e = RuntimeError (Empty_vasprun f)"
  by (induction folders) (auto split: option.splits if_splits sum.splits)

lemma folder_events_no_item:
  "(l, Unconverged_item g) \<notin> set (snd (check_convergence fs f)
        @ (if fst (check_convergence fs f) = Inr () then [] else [(ERROR, Check_failed f)]))"
  by (auto simp: check_convergence_def Let_def split: option.splits prod.splits if_splits)

text \<open>
  Claim C1, as the code has it. A check that fails with a \<open>RuntimeError\<close> (no log, or a
  marker missing) does not stop the batch. When every log that is there can be read,
  every work directory of the batch is checked, whether or not an earlier one failed:
  each leaves the record of its check in the log. When some failed, post-processing
  raises one aggregate error after the last check; the error carries the number of
  failed directories, and their names, each of them and in order, are written to the
  log; the working directory is untouched and aggregation is not reached. When none
  failed, no aggregate error is raised and post-processing goes on to cleaning and
  aggregation. A log that is there and cannot be read makes the check raise the error
  of \<open>open\<close>, which the loop does not catch: post-processing stops at the first such
  work directory with that error, the directories after it are not checked, and no
  aggregate error is raised.
\<close>

theorem run_postprocessing_batch_validation:
  assumes "map_of fs ''POSCAR-unitcell'' \<noteq> None" "prefix config = JStr pre"
      and "find_dispersion_folders fnmatch pre fs = Inr folders"
  shows "((\<forall>f\<in>set folders. child fs f ''OUTCAR'' \<noteq> None \<longrightarrow> readable fs f ''OUTCAR'') \<longrightarrow>
          (\<forall>f\<in>set folders.
            if fst (check_convergence fs f) = Inr ()
            then (INFO, Convergence_passed f) \<in> set (snd (snd (run_postprocessing fnmatch tool config fs)))
            else (ERROR, Check_failed f) \<in> set (snd (snd (run_postprocessing fnmatch tool config fs))))
          \<and> ([f \<leftarrow> folders. fst (check_convergence fs f) \<noteq> Inr ()] \<noteq> [] \<longrightarrow>
            fst (run_postprocessing fnmatch tool config fs)
              = Inl (RuntimeError (Unconverged_batch
                      (length [f \<leftarrow> folders. fst (check_convergence fs f) \<noteq> Inr ()])))
            \<and> fst (snd (run_postprocessing fnmatch tool config fs)) = fs
            \<and> [m \<leftarrow> map snd (snd (snd (run_postprocessing fnmatch tool config fs))).
                  \<exists>g. m = Unconverged_item g]
                = map Unconverged_item [f \<leftarrow> folders. fst (check_convergence fs f) \<noteq> Inr ()]
            \<and> (INFO, All_converged) \<notin> set (snd (snd (run_postprocessing fnmatch tool config fs))))
          \<and> ([f \<leftarrow> folders. fst (check_convergence fs f) \<noteq> Inr ()] = [] \<longrightarrow>
            (\<forall>n. fst (run_postprocessing fnmatch tool config fs) \<noteq> Inl (RuntimeError (Unconverged_batch n)))
            \<and> (INFO, All_converged) \<in> set (snd (snd (run_postprocessing fnmatch tool config fs)))))
       \<and> (\<forall>before f after.
            folders = before @ f # after
            \<and> (\<forall>g\<in>set before. child fs g ''OUTCAR'' \<noteq> None \<longrightarrow> readable fs g ''OUTCAR'')
            \<and> child fs f ''OUTCAR'' \<noteq> None \<and> \<not> readable fs f ''OUTCAR'' \<longrightarrow>
            run_postprocessing fnmatch tool config fs
              = (Inl (PermissionError (f @ ''/OUTCAR'')), fs,
                 [(INFO, Found_folders (length folders))]
                 @ concat (map (\<lambda>g. snd (check_convergence fs g)
                                  @ (if fst (check_convergence fs g) = Inr () then []
                                     else [(ERROR, Check_failed g)])) before)))"
proof -
  define failing where "failing = [f \<leftarrow> folders. fst (check_convergence fs f) \<noteq> Inr ()]"
  define per where "per = (\<lambda>f. snd (check_convergence fs f)
                          @ (if fst (check_convergence fs f) = Inr () then []
                             else [(ERROR, Check_failed f)]))"
  define ev where "ev = [(INFO, Found_folders (length folders))] @ concat (map per folders)"
  define R where "R = run_postprocessing fnmatch tool config fs"
  have A: "(\<forall>f\<in>set folders.
            if fst (check_convergence fs f) = Inr ()
            then (INFO, Convergence_passed f) \<in> set (snd (snd R))
            else (ERROR, Check_failed f) \<in> set (snd (snd R)))
          \<and> (failing \<noteq> [] \<longrightarrow>
            fst R = Inl (RuntimeError (Unconverged_batch (length failing)))
            \<and> fst (snd R) = fs
            \<and> [m \<leftarrow> map snd (snd (snd R)). \<exists>g. m = Unconverged_item g] = map Unconverged_item failing
            \<and> (INFO, All_converged) \<notin> set (snd (snd R)))
          \<and> (failing = [] \<longrightarrow>
            (\<forall>n. fst R \<noteq> Inl (RuntimeError (Unconverged_batch n)))
            \<and> (INFO, All_converged) \<in> set (snd (snd R)))"
    if rd: "\<forall>f\<in>set folders. child fs f ''OUTCAR'' \<noteq> None \<longrightarrow> readable fs f ''OUTCAR''"
  proof -
    note unfolded = run_postprocessing_after_loop[OF assms rd, of tool, folded per_def,
        folded ev_def failing_def R_def]
    have dirs: "\<forall>f\<in>set folders. is_dir fs f"
      using find_dispersion_folders_sound[OF assms(3)] by blast
    have per_in: "set (per f) \<subseteq> set ev" if "f \<in> set folders" for f
      using that unfolding ev_def by auto
    have checked: "if fst (check_convergence fs f) = Inr ()
              then (INFO, Convergence_passed f) \<in> set ev else (ERROR, Check_failed f) \<in> set ev"
      if "f \<in> set folders" for f
      using per_in[OF that] check_convergence_pass_event[of fs f] unfolding per_def by auto
    have no_item: "(l, Unconverged_item g) \<notin> set ev" for l g
      using folder_events_no_item[of l g fs] unfolding ev_def per_def by auto
    have no_all: "(INFO, All_converged) \<notin> set ev"
      unfolding ev_def per_def
      by (auto simp: check_convergence_def Let_def split: option.splits prod.splits if_splits)
    have filt: "[m \<leftarrow> map snd ev. \<exists>g. m = Unconverged_item g] = []"
      using no_item by (auto simp: filter_empty_conv)
    show ?thesis
    proof (cases "failing = []")
      case False
      then have R: "R = (Inl (RuntimeError (Unconverged_batch (length failing))), fs,
                        ev @ unconverged_report failing)"
        using unfolded by (simp add: Let_def)
      have items: "[m \<leftarrow> map snd (ev @ unconverged_report failing). \<exists>g. m = Unconverged_item g]
                    = map Unconverged_item failing"
        using filt by (simp add: unconverged_report_def filter_map comp_def)
      have "(INFO, All_converged) \<notin> set (ev @ unconverged_report failing)"
        using no_all by (auto simp: unconverged_report_def)
      then show ?thesis
        using False R items checked by auto
    next
      case True
      from clean_folders_dirs[OF dirs, of "ev @ [(INFO, All_converged)]"]
      obtain fs1 more where
        cl0: "clean_folders fs folders (ev @ [(INFO, All_converged)])
               = (Inr (), fs1, (ev @ [(INFO, All_converged)]) @ more)"
        by blast
      define ev1 where "ev1 = (ev @ [(INFO, All_converged)]) @ more"
      have cl: "clean_folders fs folders (ev @ [(INFO, All_converged)]) = (Inr (), fs1, ev1)"
        using cl0 unfolding ev1_def .
      have R: "R = (case collect_vasprun_paths fs1 folders of
                     Inl e \<Rightarrow> (Inl e, fs1, ev1)
                   | Inr vasprun_paths \<Rightarrow>
                       (case run_command tool ([''phonopy'', ''-f''] @ vasprun_paths) fs1 of
                          (r, fs2) \<Rightarrow> (r, fs2, ev1)))"
        using unfolded True cl by (simp add: Let_def)
      have "snd (snd R) = ev1"
        unfolding R by (auto split: sum.splits prod.splits)
      then have evs: "snd (snd R) = (ev @ [(INFO, All_converged)]) @ more"
        unfolding ev1_def .
      have notbatch: "fst R \<noteq> Inl (RuntimeError (Unconverged_batch n))" for n
        unfolding R using collect_vasprun_paths_errors[of fs1 folders]
        by (auto simp: run_command_def split: sum.splits prod.splits if_splits)
      show ?thesis
        using True evs notbatch checked by auto
    qed
  qed
  have B: "R = (Inl (PermissionError (f @ ''/OUTCAR'')), fs,
                [(INFO, Found_folders (length folders))] @ concat (map per before))"
    if split: "folders = before @ f # after"
      and rd: "\<forall>g\<in>set before. child fs g ''OUTCAR'' \<noteq> None \<longrightarrow> readable fs g ''OUTCAR''"
      and there: "child fs f ''OUTCAR'' \<noteq> None" and locked: "\<not> readable fs f ''OUTCAR''"
    for before f after
  proof -
    obtain y where u: "map_of fs ''POSCAR-unitcell'' = Some y" using assms(1) by auto
    have loop: "convergence_loop fs folders [] [(INFO, Found_folders (length folders))]
        = (Inl (PermissionError (f @ ''/OUTCAR'')),
           [(INFO, Found_folders (length folders))] @ concat (map per before))"
      unfolding per_def split
      using convergence_loop_stops[OF rd there locked, of after "[]"
          "[(INFO, Found_folders (length (before @ f # after)))]"] .
    show ?thesis
      unfolding R_def using u assms(2,3) loop by (simp add: run_postprocessing_def)
  qed
  from A B show ?thesis
    unfolding failing_def R_def per_def by blast
qed

lemmas eval_find = find_dispersion_folders_def listing_def fnmatch_literal_star_def is_dir_def
  dispersion_pattern_match_def isdigit_char_def LF_def Let_def

lemmas eval_check = check_convergence_def child_def readable_def outcar_lines_def readlines_def
  decode_ignore_def good_outcar_def keyword_converged_def keyword_finished_def LF_def CR_def

theorem run_postprocessing_batch_validation_witness:
  "map_of first_unconverged ''POSCAR-unitcell'' \<noteq> None
   \<and> prefix sample_config = JStr ''run''
   \<and> find_dispersion_folders fnmatch_literal_star ''run'' first_unconverged = Inr [''run-1'', ''run-2'']
   \<and> child first_unconverged ''run-1'' ''OUTCAR'' = None
   \<and> readable first_unconverged ''run-2'' ''OUTCAR''
   \<and> fst (run_postprocessing fnmatch_literal_star idle_tool sample_config first_unconverged)
       = Inl (RuntimeError (Unconverged_batch 1))
   \<and> map_of first_unreadable ''POSCAR-unitcell'' \<noteq> None
   \<and> find_dispersion_folders fnmatch_literal_star ''run'' first_unreadable = Inr [''run-1'', ''run-2'']
   \<and> child first_unreadable ''run-1'' ''OUTCAR'' \<noteq> None
   \<and> \<not> readable first_unreadable ''run-1'' ''OUTCAR''
   \<and> run_postprocessing fnmatch_literal_star idle_tool sample_config first_unreadable
       = (Inl (PermissionError ''run-1/OUTCAR''), first_unreadable, [(INFO, Found_folders 2)])"
proof -
  have h1: "map_of first_unconverged ''POSCAR-unitcell'' \<noteq> None"
    by (simp add: first_unconverged_def)
  have h2: "prefix sample_config = JStr ''run''"
    by (simp add: sample_config_def)
  have h3: "find_dispersion_folders fnmatch_literal_star ''run'' first_unconverged = Inr [''run-1'', ''run-2'']"
    by (simp add: first_unconverged_def eval_find)
  have r1: "child first_unconverged ''run-1'' ''OUTCAR'' = None"
    by (simp add: first_unconverged_def child_def)
  have r2: "readable first_unconverged ''run-2'' ''OUTCAR''"
    by (simp add: first_unconverged_def readable_def)
  have rd: "\<forall>f\<in>set [''run-1'', ''run-2''].
      child first_unconverged f ''OUTCAR'' \<noteq> None \<longrightarrow> readable first_unconverged f ''OUTCAR''"
    using r1 r2 by simp
  have f: "[f \<leftarrow> [''run-1'', ''run-2'']. fst (check_convergence first_unconverged f) \<noteq> Inr ()] = [''run-1'']"
    by (simp add: first_unconverged_def eval_check)
  from run_postprocessing_batch_validation[OF h1 h2 h3, of idle_tool] rd
  have "[f \<leftarrow> [''run-1'', ''run-2'']. fst (check_convergence first_unconverged f) \<noteq> Inr ()] \<noteq> [] \<longrightarrow>
          fst (run_postprocessing fnmatch_literal_star idle_tool sample_config first_unconverged)
            = Inl (RuntimeError (Unconverged_batch
                (length [f \<leftarrow> [''run-1'', ''run-2'']. fst (check_convergence first_unconverged f) \<noteq> Inr ()])))"
    by blast
  then have a: "fst (run_postprocessing fnmatch_literal_star idle_tool sample_config first_unconverged)
       = Inl (RuntimeError (Unconverged_batch 1))"
    unfolding f by simp
  have k1: "map_of first_unreadable ''POSCAR-unitcell'' \<noteq> None"
    by (simp add: first_unreadable_def)
  have k3: "find_dispersion_folders fnmatch_literal_star ''run'' first_unreadable = Inr [''run-1'', ''run-2'']"
    by (simp add: first_unreadable_def eval_find)
  have u1: "child first_unreadable ''run-1'' ''OUTCAR'' \<noteq> None"
    by (simp add: first_unreadable_def child_def)
  have u2: "\<not> readable first_unreadable ''run-1'' ''OUTCAR''"
    by (simp add: first_unreadable_def readable_def)
  from run_postprocessing_batch_validation[OF k1 h2 k3, of idle_tool]
  have "[''run-1'', ''run-2''] = [] @ ''run-1'' # [''run-2'']
            \<and> (\<forall>g\<in>set []. child first_unreadable g ''OUTCAR'' \<noteq> None \<longrightarrow> readable first_unreadable g ''OUTCAR'')
            \<and> child first_unreadable ''run-1'' ''OUTCAR'' \<noteq> None
            \<and> \<not> readable first_unreadable ''run-1'' ''OUTCAR'' \<longrightarrow>
         run_postprocessing fnmatch_literal_star idle_tool sample_config first_unreadable
              = (Inl (PermissionError (''run-1'' @ ''/OUTCAR'')), first_unreadable,
                 [(INFO, Found_folders (length [''run-1'', ''run-2'']))]
                 @ concat (map (\<lambda>g. snd (check_convergence first_unreadable g)
                                  @ (if fst (check_convergence first_unreadable g) = Inr () then []
                                     else [(ERROR, Check_failed g)])) []))"
    by blast
  then have b: "run_postprocessing fnmatch_literal_star idle_tool sample_config first_unreadable
       = (Inl (PermissionError ''run-1/OUTCAR''), first_unreadable, [(INFO, Found_folders 2)])"
    using u1 u2 by simp
  from h1 h2 h3 r1 r2 a k1 k3 u1 u2 b show ?thesis by blast
qed

text \<open>
  The claim as stated fails: the aggregate error is the same whether the first or the
  second work directory is the unconverged one, so it does not name the directory.
\<close>

theorem aggregate_error_counterexample:
  "fst (run_postprocessing fnmatch_literal_star idle_tool sample_config first_unconverged)
     = Inl (RuntimeError (Unconverged_batch 1))
   \<and> fst (run_postprocessing fnmatch_literal_star idle_tool sample_config second_unconverged)
     = Inl (RuntimeError (Unconverged_batch 1))
   \<and> [f \<leftarrow> [''run-1'', ''run-2'']. fst (check_convergence first_unconverged f) \<noteq> Inr ()] = [''run-1'']
   \<and> [f \<leftarrow> [''run-1'', ''run-2'']. fst (check_convergence second_unconverged f) \<noteq> Inr ()] = [''run-2'']"
proof -
  have a1: "find_dispersion_folders fnmatch_literal_star ''run'' first_unconverged = Inr [''run-1'', ''run-2'']"
    by (simp add: first_unconverged_def eval_find)
  have a2: "find_dispersion_folders fnmatch_literal_star ''run'' second_unconverged = Inr [''run-1'', ''run-2'']"
    by (simp add: second_unconverged_def eval_find)
  have f1: "[f \<leftarrow> [''run-1'', ''run-2'']. fst (check_convergence first_unconverged f) \<noteq> Inr ()] = [''run-1'']"
    by (simp add: first_unconverged_def eval_check)
  have f2: "[f \<leftarrow> [''run-1'', ''run-2'']. fst (check_convergence second_unconverged f) \<noteq> Inr ()] = [''run-2'']"
    by (simp add: second_unconverged_def eval_check)
  have u1: "map_of first_unconverged ''POSCAR-unitcell'' \<noteq> None" by (simp add: first_unconverged_def)
  have u2: "map_of second_unconverged ''POSCAR-unitcell'' \<noteq> None" by (simp add: second_unconverged_def)
  have p: "prefix sample_config = JStr ''run''" by (simp add: sample_config_def)
  have d1: "\<forall>f\<in>set [''run-1'', ''run-2''].
      child first_unconverged f ''OUTCAR'' \<noteq> None \<longrightarrow> readable first_unconverged f ''OUTCAR''"
    by (simp add: first_unconverged_def child_def readable_def)
  have d2: "\<forall>f\<in>set [''run-1'', ''run-2''].
      child second_unconverged f ''OUTCAR'' \<noteq> None \<longrightarrow> readable second_unconverged f ''OUTCAR''"
    by (simp add: second_unconverged_def child_def readable_def)
  have r1: "fst (run_postprocessing fnmatch_literal_star idle_tool sample_config first_unconverged)
     = Inl (RuntimeError (Unconverged_batch 1))"
    unfolding run_postprocessing_after_loop[OF u1 p a1 d1] Let_def f1 by simp
  have r2: "fst (run_postprocessing fnmatch_literal_star idle_tool sample_config second_unconverged)
     = Inl (RuntimeError (Unconverged_batch 1))"
    unfolding run_postprocessing_after_loop[OF u2 p a2 d2] Let_def f2 by simp
  from r1 r2 f1 f2 show ?thesis by blast
qed

text \<open>
  Claim C8. When every work directory has converged and at least one of them has no
  \<open>vasprun.xml\<close>, or an empty one, post-processing fails with an error that names
  the first such directory, whatever the other directories hold; the external command
  is not run. By then every file of size zero has been removed from every work
  directory, and nothing else has changed.
\<close>

theorem run_postprocessing_missing_vasprun:
  assumes "map_of fs ''POSCAR-unitcell'' \<noteq> None" "prefix config = JStr pre"
      and "find_dispersion_folders fnmatch pre fs = Inr folders"
      and conv: "\<forall>f\<in>set folders. fst (check_convergence fs f) = Inr ()"
      and bad: "\<exists>f\<in>set folders. child fs f ''vasprun.xml'' = None \<or> child fs f ''vasprun.xml'' = Some []"
  shows "\<exists>fs1 ev.
           run_postprocessing fnmatch tool config fs
             = (Inl (RuntimeError (Missing_vasprun
                  (hd [f \<leftarrow> folders. child fs f ''vasprun.xml'' = None
                                     \<or> child fs f ''vasprun.xml'' = Some []]))), fs1, ev)
         \<and> hd [f \<leftarrow> folders. child fs f ''vasprun.xml'' = None
                            \<or> child fs f ''vasprun.xml'' = Some []] \<in> set folders
         \<and> (\<forall>g k. child fs1 g k
                = (if g \<in> set folders \<and> child fs g k = Some [] then None else child fs g k))
         \<and> (\<forall>x. x \<notin> set folders \<longrightarrow> map_of fs1 x = map_of fs x)"
proof -
  define B where "B = [f \<leftarrow> folders. child fs f ''vasprun.xml'' = None
                                     \<or> child fs f ''vasprun.xml'' = Some []]"
  define per where "per = (\<lambda>f. snd (check_convergence fs f)
                          @ (if fst (check_convergence fs f) = Inr () then []
                             else [(ERROR, Check_failed f)]))"
  define ev where "ev = [(INFO, Found_folders (length folders))] @ concat (map per folders)"
  have rd: "\<forall>f\<in>set folders. child fs f ''OUTCAR'' \<noteq> None \<longrightarrow> readable fs f ''OUTCAR''"
    using conv check_convergence_passed_readable by blast
  note unfolded = run_postprocessing_after_loop[OF assms(1,2,3) rd, of tool, folded per_def, folded ev_def]
  have nofail: "[f \<leftarrow> folders. fst (check_convergence fs f) \<noteq> Inr ()] = []"
    using conv by (simp add: filter_empty_conv)
  have dirs: "\<forall>f\<in>set folders. is_dir fs f"
    using find_dispersion_folders_sound[OF assms(3)] by blast
  from clean_folders_dirs[OF dirs, of "ev @ [(INFO, All_converged)]"]
  obtain fs1 more where
    cl0: "clean_folders fs folders (ev @ [(INFO, All_converged)])
             = (Inr (), fs1, (ev @ [(INFO, All_converged)]) @ more)"
    and ch: "\<forall>g k. child fs1 g k
                = (if g \<in> set folders \<and> child fs g k = Some [] then None else child fs g k)"
    and keep: "\<forall>x. x \<notin> set folders \<longrightarrow> map_of fs1 x = map_of fs x"
    by blast
  define ev1 where "ev1 = (ev @ [(INFO, All_converged)]) @ more"
  have cl: "clean_folders fs folders (ev @ [(INFO, All_converged)]) = (Inr (), fs1, ev1)"
    using cl0 unfolding ev1_def .
  have nonempty: "\<forall>f\<in>set folders. child fs1 f ''vasprun.xml'' \<noteq> Some []"
    using ch by simp
  have same: "[f \<leftarrow> folders. child fs1 f ''vasprun.xml'' = None] = B"
    unfolding B_def using ch by (intro filter_cong) auto
  have Bne: "B \<noteq> []" using bad unfolding B_def by (auto simp: filter_empty_conv)
  then obtain f0 rest where B: "B = f0 # rest" by (cases B) auto
  have col: "collect_vasprun_paths fs1 folders = Inl (RuntimeError (Missing_vasprun f0))"
    using collect_vasprun_paths_eq[OF nonempty] same B by simp
  have R: "run_postprocessing fnmatch tool config fs = (Inl (RuntimeError (Missing_vasprun f0)), fs1, ev1)"
    using unfolded nofail cl col by (simp add: Let_def)
  have "f0 \<in> set B" using B by simp
  then have mem: "f0 \<in> set folders" unfolding B_def by simp
  show ?thesis
    using R mem ch keep unfolding B_def[symmetric] B by auto
qed

theorem run_postprocessing_missing_vasprun_witness:
  "map_of second_without_data ''POSCAR-unitcell'' \<noteq> None
   \<and> prefix sample_config = JStr ''run''
   \<and> find_dispersion_folders fnmatch_literal_star ''run'' second_without_data = Inr [''run-1'', ''run-2'']
   \<and> fst (check_convergence second_without_data ''run-1'') = Inr ()
   \<and> fst (check_convergence second_without_data ''run-2'') = Inr ()
   \<and> child second_without_data ''run-2'' ''vasprun.xml'' = Some []
   \<and> fst (run_postprocessing fnmatch_literal_star idle_tool sample_config second_without_data)
       = Inl (RuntimeError (Missing_vasprun ''run-2''))"
proof -
  have h1: "map_of second_without_data ''POSCAR-unitcell'' \<noteq> None"
    by (simp add: second_without_data_def)
  have h2: "prefix sample_config = JStr ''run''"
    by (simp add: sample_config_def)
  have h3: "find_dispersion_folders fnmatch_literal_star ''run'' second_without_data = Inr [''run-1'', ''run-2'']"
    by (simp add: second_without_data_def eval_find)
  have c1: "fst (check_convergence second_without_data ''run-1'') = Inr ()"
    by (simp add: second_without_data_def eval_check)
  have c2: "fst (check_convergence second_without_data ''run-2'') = Inr ()"
    by (simp add: second_without_data_def eval_check)
  have v1: "child second_without_data ''run-1'' ''vasprun.xml'' = Some [Some CHR ''x'']"
    by (simp add: second_without_data_def child_def)
  have v2: "child second_without_data ''run-2'' ''vasprun.xml'' = Some []"
    by (simp add: second_without_data_def child_def)
  have conv: "\<forall>f\<in>set [''run-1'', ''run-2'']. fst (check_convergence second_without_data f) = Inr ()"
    using c1 c2 by simp
  have bad: "\<exists>f\<in>set [''run-1'', ''run-2''].
      child second_without_data f ''vasprun.xml'' = None \<or> child second_without_data f ''vasprun.xml'' = Some []"
    using v2 by simp
  have hdB: "hd [f \<leftarrow> [''run-1'', ''run-2'']. child second_without_data f ''vasprun.xml'' = None
                  \<or> child second_without_data f ''vasprun.xml'' = Some []] = ''run-2''"
    using v1 v2 by simp
  from run_postprocessing_missing_vasprun[OF h1 h2 h3 conv bad, of idle_tool]
  have "fst (run_postprocessing fnmatch_literal_star idle_tool sample_config second_without_data)
       = Inl (RuntimeError (Missing_vasprun ''run-2''))"
    unfolding hdB by auto
  with h1 h2 h3 c1 c2 v2 show ?thesis by blast
qed

text \<open>
  Claim C9, at an input where the code departs from it. The only directory is named
  \<open>run-1\<close> followed by a line feed: its name is not the prefix, a hyphen and digits.
  In the pattern of \<open>find_dispersion_folders\<close> the anchor \<open>$\<close> also matches before
  a final line feed, so the directory is taken for a work directory: no error is raised
  after the check of the unit cell, the convergence check runs on it, and what is
  raised is the aggregate error of the batch.
\<close>

theorem run_postprocessing_newline_folder:
  "run_postprocessing fnmatch_literal_star idle_tool sample_config newline_folder
    = (Inl (RuntimeError (Unconverged_batch 1)), newline_folder,
       [(INFO, Found_folders 1), (ERROR, Check_failed (''run-1'' @ [LF])),
        (ERROR, Rule), (ERROR, Unconverged_found), (ERROR, Unconverged_count 1),
        (ERROR, Unconverged_list), (ERROR, Unconverged_item (''run-1'' @ [LF])), (ERROR, Rule)])"
  by (simp add: run_postprocessing_def sample_config_def newline_folder_def
      find_dispersion_folders_def listing_def
      fnmatch_literal_star_def is_dir_def dispersion_pattern_match_def isdigit_char_def LF_def
      check_convergence_def child_def unconverged_report_def Let_def)

end
